theory Spec2Isabelle
  imports Complex_Main
begin

section \<open>Classical laminate theory: the \<open>LaminateAnalysis\<close> class over the reals\<close>

text \<open>
  The development embeds \<^verbatim>\<open>src/structlib/classical_laminate.py\<close>. Python floats and numpy
  float arrays are modelled as real numbers; rounding is outside the model. Integers are
  modelled by the same real numbers, which is what numpy computes as long as its 64-bit
  integer arithmetic does not overflow; the one integer operation of the source is
  \<^verbatim>\<open>np.sum(self.t)\<close> on thicknesses given as integers. A one-dimensional array and a column
  of shape (n, 1) are a list, a two-dimensional array is the list of its rows. Every
  exception the source can raise is a value of \<open>error\<close>.
\<close>

subsection \<open>Errors\<close>

text \<open>
  The first five constructors are the Python and numpy exceptions that statements of the
  source raise. The last three are the error kinds the specification names; no statement of
  the source raises them, and they are here so that this fact can be stated.
\<close>

datatype error =
    KeyError | ZeroDivisionError | IndexError | ValueError | LinAlgError
  | InvalidLayup | SingularLaminate | PlyIndexOutOfRange

subsection \<open>Vectors and matrices\<close>

type_synonym vec = "real list"
type_synonym mat = "real list list"

definition dot :: "vec \<Rightarrow> vec \<Rightarrow> real" where
  "dot xs ys = sum_list (map2 (*) xs ys)"

text \<open>\<^verbatim>\<open>M @ v\<close> for a matrix and a column.\<close>

definition matvec :: "mat \<Rightarrow> vec \<Rightarrow> vec" where
  "matvec M v = map (\<lambda>r. dot r v) M"

text \<open>\<^verbatim>\<open>M @ N\<close> for two matrices: row times column.\<close>

definition matmul :: "mat \<Rightarrow> mat \<Rightarrow> mat" where
  "matmul M N = map (\<lambda>r. map (dot r) (transpose N)) M"

text \<open>\<^verbatim>\<open>np.zeros((3, 3))\<close> filled by \<^verbatim>\<open>for i in range(3): for j in range(3)\<close>.\<close>

definition mat3 :: "(nat \<Rightarrow> nat \<Rightarrow> real) \<Rightarrow> mat" where
  "mat3 f = map (\<lambda>i. map (\<lambda>j. f i j) [0..<3]) [0..<3]"

text \<open>\<^verbatim>\<open>np.block([[A, B], [C, D]])\<close>.\<close>

definition np_block :: "mat \<Rightarrow> mat \<Rightarrow> mat \<Rightarrow> mat \<Rightarrow> mat" where
  "np_block A B C D = map2 (@) A B @ map2 (@) C D"

subsection \<open>\<^verbatim>\<open>np.linalg.solve\<close> and \<^verbatim>\<open>np.linalg.inv\<close>\<close>

text \<open>
  numpy hands both calls to LAPACK's \<^verbatim>\<open>gesv\<close>: Gaussian elimination with partial pivoting
  (the pivot of a column is its first entry of largest absolute value, swapped into place),
  then back substitution; a pivot that is exactly zero makes numpy raise \<^verbatim>\<open>LinAlgError\<close>.
  The model performs the same elimination over the reals on the rows of the augmented
  system, one unknown at a time. The source calls it on square matrices only: \<open>T\<close> is
  3 by 3 and \<open>[[A, B], [B, D]]\<close> is 6 by 6.
\<close>

fun idamax :: "real list \<Rightarrow> nat" where
  "idamax [] = 0"
| "idamax (x # xs) = (if list_all (\<lambda>y. \<bar>y\<bar> \<le> \<bar>x\<bar>) xs then 0 else Suc (idamax xs))"

definition swap_rows :: "'a list \<Rightarrow> nat \<Rightarrow> 'a list" where
  "swap_rows rows p = rows[0 := rows ! p, p := rows ! 0]"

definition eliminate :: "real list \<times> real \<Rightarrow> real list \<times> real \<Rightarrow> real list \<times> real" where
  "eliminate piv row =
     (let m = hd (fst row) / hd (fst piv)
      in (map2 (\<lambda>c q. c - m * q) (tl (fst row)) (tl (fst piv)), snd row - m * snd piv))"

function gesv :: "(real list \<times> real) list \<Rightarrow> error + real list" where
  "gesv [] = Inr []"
| "gesv (r # rs) =
     (let rows = swap_rows (r # rs) (idamax (map (\<lambda>row. hd (fst row)) (r # rs)));
          piv = hd rows
      in if hd (fst piv) = 0 then Inl LinAlgError
         else (case gesv (map (eliminate piv) (tl rows)) of
                 Inl e \<Rightarrow> Inl e
               | Inr xs \<Rightarrow> Inr ((snd piv - dot (tl (fst piv)) xs) / hd (fst piv) # xs)))"
  by pat_completeness auto
termination
  by (relation "measure length") (auto simp: swap_rows_def)

definition linalg_solve :: "mat \<Rightarrow> vec \<Rightarrow> error + vec" where
  "linalg_solve a b = gesv (zip a b)"

fun solve_columns :: "mat \<Rightarrow> vec list \<Rightarrow> error + vec list" where
  "solve_columns a [] = Inr []"
| "solve_columns a (b # bs) =
     (case linalg_solve a b of
        Inl e \<Rightarrow> Inl e
      | Inr x \<Rightarrow> (case solve_columns a bs of Inl e \<Rightarrow> Inl e | Inr xs \<Rightarrow> Inr (x # xs)))"

definition unit_vec :: "nat \<Rightarrow> nat \<Rightarrow> vec" where
  "unit_vec n j = (replicate n 0)[j := 1]"

text \<open>The inverse is the solution of \<open>a x = I\<close>, column by column.\<close>

definition linalg_inv :: "mat \<Rightarrow> error + mat" where
  "linalg_inv a =
     (case solve_columns a (map (unit_vec (length a)) [0..<length a]) of
        Inl e \<Rightarrow> Inl e
      | Inr cols \<Rightarrow> Inr (transpose cols))"

subsection \<open>The state of a \<open>LaminateAnalysis\<close> object\<close>

text \<open>The attributes \<^verbatim>\<open>self.angles\<close>, \<^verbatim>\<open>self.theta\<close>, ... in the order \<^verbatim>\<open>__init__\<close> sets them.
  \<^verbatim>\<open>self.z\<close> and \<^verbatim>\<open>self.z_m\<close> have shape (k, 1) and are read as \<^verbatim>\<open>z[i, 0]\<close> only.\<close>

record LaminateAnalysis =
  self_angles :: "real list"
  self_theta :: "real list"
  self_t :: "real list"
  self_k :: nat
  self_E11 :: real
  self_E22 :: real
  self_G12 :: real
  self_V12 :: real
  self_V21 :: real
  self_Q :: mat
  self_z :: "real list"
  self_z_m :: "real list"
  self_Q_bar :: "mat list"
  self_T :: "mat list"
  self_T_e :: "mat list"
  self_A :: mat
  self_B :: mat
  self_D :: mat

text \<open>The \<^verbatim>\<open>thicknesses\<close> argument: a Python \<^verbatim>\<open>int\<close> or \<^verbatim>\<open>float\<close>, or a sequence.\<close>

datatype thicknesses = Number real | Array "real list"

subsection \<open>\<^verbatim>\<open>_calculate_Q\<close>\<close>

definition calculate_Q :: "real \<Rightarrow> real \<Rightarrow> real \<Rightarrow> real \<Rightarrow> real \<Rightarrow> error + mat" where
  "calculate_Q E11 E22 G12 V12 V21 =
     (if 1 - V12 * V21 = 0 then Inl ZeroDivisionError
      else Inr [[E11 / (1 - V12 * V21), V21 * E11 / (1 - V12 * V21), 0],
                [V12 * E22 / (1 - V12 * V21), E22 / (1 - V12 * V21), 0],
                [0, 0, G12]])"

subsection \<open>\<^verbatim>\<open>_calculate_z_coordinates\<close>\<close>

text \<open>The loop \<^verbatim>\<open>for i in range(self.k)\<close> with its state \<open>(z, z_m, current_z)\<close>;
  \<^verbatim>\<open>self.t[i]\<close> raises \<^verbatim>\<open>IndexError\<close> beyond the end of \<^verbatim>\<open>self.t\<close>.\<close>

function z_loop :: "real list \<Rightarrow> nat \<Rightarrow> nat \<Rightarrow> real list \<times> real list \<times> real
    \<Rightarrow> error + (real list \<times> real list)" where
  "z_loop t k i (z, z_m, current_z) =
     (if i < k then
        (if i < length t then
           z_loop t k (Suc i)
             (z[i := current_z + t ! i], z_m[i := current_z + t ! i / 2], current_z + t ! i)
         else Inl IndexError)
      else Inr (z, z_m))"
  by pat_completeness auto
termination
  by (relation "measure (\<lambda>(t, k, i, s). k - i)") auto

declare z_loop.simps [simp del]

definition calculate_z_coordinates :: "real list \<Rightarrow> nat \<Rightarrow> error + (real list \<times> real list)" where
  "calculate_z_coordinates t k =
     (let t_total = sum_list t
      in z_loop t k 0 (replicate k 0, replicate k 0, - t_total / 2))"

subsection \<open>\<^verbatim>\<open>_calculate_transformation\<close>\<close>

definition T_matrix :: "real \<Rightarrow> real \<Rightarrow> mat" where
  "T_matrix c s =
     [[c\<^sup>2, s\<^sup>2, 2 * s * c],
      [s\<^sup>2, c\<^sup>2, (- 2) * s * c],
      [(- s) * c, s * c, c\<^sup>2 - s\<^sup>2]]"

definition T_e_matrix :: "real \<Rightarrow> real \<Rightarrow> mat" where
  "T_e_matrix c s =
     [[c\<^sup>2, s\<^sup>2, s * c],
      [s\<^sup>2, c\<^sup>2, (- s) * c],
      [(- 2) * s * c, 2 * s * c, c\<^sup>2 - s\<^sup>2]]"

definition calculate_transformation :: "real \<Rightarrow> mat \<Rightarrow> error + (mat \<times> mat \<times> mat)" where
  "calculate_transformation theta_rad Q =
     (let c = cos theta_rad;
          s = sin theta_rad;
          T = T_matrix c s;
          T_e = T_e_matrix c s
      in case linalg_inv T of
           Inl e \<Rightarrow> Inl e
         | Inr T_inv \<Rightarrow> Inr (T, T_e, matmul (matmul T_inv Q) T_e))"

text \<open>The loop of \<^verbatim>\<open>__init__\<close> over the plies, appending to \<^verbatim>\<open>self.T\<close>, \<^verbatim>\<open>self.T_e\<close> and
  \<^verbatim>\<open>self.Q_bar\<close>.\<close>

fun ply_loop :: "real list \<Rightarrow> mat \<Rightarrow> mat list \<times> mat list \<times> mat list
    \<Rightarrow> error + (mat list \<times> mat list \<times> mat list)" where
  "ply_loop [] Q acc = Inr acc"
| "ply_loop (th # ths) Q (Ts, T_es, Q_bars) =
     (case calculate_transformation th Q of
        Inl e \<Rightarrow> Inl e
      | Inr (T, T_e, Q_bar) \<Rightarrow> ply_loop ths Q (Ts @ [T], T_es @ [T_e], Q_bars @ [Q_bar]))"

subsection \<open>\<^verbatim>\<open>_calculate_ABD_matrices\<close>\<close>

text \<open>The innermost loop \<^verbatim>\<open>for ply in range(self.k)\<close> adds one term per ply to the entry
  \<open>(i, j)\<close> of each matrix. \<^verbatim>\<open>self.Q_bar[ply]\<close>, \<^verbatim>\<open>self.t[ply]\<close> and \<^verbatim>\<open>self.z[ply, 0]\<close> raise
  \<^verbatim>\<open>IndexError\<close> when one of the three is shorter than \<open>k\<close>.\<close>

definition A_entry :: "nat \<Rightarrow> vec \<Rightarrow> mat list \<Rightarrow> nat \<Rightarrow> nat \<Rightarrow> real" where
  "A_entry k t Q_bar i j =
     foldl (\<lambda>a ply. a + Q_bar ! ply ! i ! j * t ! ply) 0 [0..<k]"

definition B_entry :: "nat \<Rightarrow> vec \<Rightarrow> vec \<Rightarrow> mat list \<Rightarrow> nat \<Rightarrow> nat \<Rightarrow> real" where
  "B_entry k t z Q_bar i j =
     foldl (\<lambda>b ply. b + 0.5 * Q_bar ! ply ! i ! j * ((z ! ply)\<^sup>2 - (z ! ply - t ! ply)\<^sup>2))
       0 [0..<k]"

definition D_entry :: "nat \<Rightarrow> vec \<Rightarrow> vec \<Rightarrow> mat list \<Rightarrow> nat \<Rightarrow> nat \<Rightarrow> real" where
  "D_entry k t z Q_bar i j =
     foldl (\<lambda>d ply. d + (1 / 3) * Q_bar ! ply ! i ! j * ((z ! ply) ^ 3 - (z ! ply - t ! ply) ^ 3))
       0 [0..<k]"

definition calculate_ABD_matrices :: "nat \<Rightarrow> vec \<Rightarrow> vec \<Rightarrow> mat list \<Rightarrow> error + (mat \<times> mat \<times> mat)" where
  "calculate_ABD_matrices k t z Q_bar =
     (if k \<le> length Q_bar \<and> k \<le> length t \<and> k \<le> length z
      then Inr (mat3 (A_entry k t Q_bar), mat3 (B_entry k t z Q_bar), mat3 (D_entry k t z Q_bar))
      else Inl IndexError)"

subsection \<open>\<^verbatim>\<open>__init__\<close>\<close>

definition dict_get :: "(string \<Rightarrow> real option) \<Rightarrow> string \<Rightarrow> error + real" where
  "dict_get d key = (case d key of None \<Rightarrow> Inl KeyError | Some v \<Rightarrow> Inr v)"

definition LaminateAnalysis_init ::
    "real list \<Rightarrow> thicknesses \<Rightarrow> (string \<Rightarrow> real option) \<Rightarrow> error + LaminateAnalysis" where
  "LaminateAnalysis_init layup_angles thicknesses material_properties =
     (let angles = layup_angles;
          theta = map (\<lambda>a. a * pi / 180) layup_angles;
          t = (case thicknesses of Number x \<Rightarrow> replicate (length angles) x | Array ts \<Rightarrow> ts);
          k = length angles
      in case dict_get material_properties ''E11'' of Inl e \<Rightarrow> Inl e | Inr E11 \<Rightarrow>
        (case dict_get material_properties ''E22'' of Inl e \<Rightarrow> Inl e | Inr E22 \<Rightarrow>
        (case dict_get material_properties ''G12'' of Inl e \<Rightarrow> Inl e | Inr G12 \<Rightarrow>
        (case dict_get material_properties ''V12'' of Inl e \<Rightarrow> Inl e | Inr V12 \<Rightarrow>
        (if E11 = 0 then Inl ZeroDivisionError
         else
           (let V21 = V12 * E22 / E11
            in case calculate_Q E11 E22 G12 V12 V21 of Inl e \<Rightarrow> Inl e | Inr Q \<Rightarrow>
              (case calculate_z_coordinates t k of Inl e \<Rightarrow> Inl e | Inr (z, z_m) \<Rightarrow>
              (case ply_loop theta Q ([], [], []) of Inl e \<Rightarrow> Inl e | Inr (T, T_e, Q_bar) \<Rightarrow>
              (case calculate_ABD_matrices k t z Q_bar of Inl e \<Rightarrow> Inl e | Inr (A, B, D) \<Rightarrow>
                 Inr \<lparr>self_angles = angles, self_theta = theta, self_t = t, self_k = k,
                      self_E11 = E11, self_E22 = E22, self_G12 = G12, self_V12 = V12,
                      self_V21 = V21, self_Q = Q, self_z = z, self_z_m = z_m,
                      self_Q_bar = Q_bar, self_T = T, self_T_e = T_e,
                      self_A = A, self_B = B, self_D = D\<rparr>)))))))))"

subsection \<open>\<^verbatim>\<open>calculate_response\<close>\<close>

definition abd_matrix :: "LaminateAnalysis \<Rightarrow> mat" where
  "abd_matrix self = np_block (self_A self) (self_B self) (self_B self) (self_D self)"

text \<open>\<^verbatim>\<open>reshape(3, 1)\<close> raises \<^verbatim>\<open>ValueError\<close> unless the array has three entries.\<close>

definition calculate_response :: "LaminateAnalysis \<Rightarrow> vec \<Rightarrow> vec \<Rightarrow> error + (vec \<times> vec)" where
  "calculate_response self forces moments =
     (if length forces \<noteq> 3 \<or> length moments \<noteq> 3 then Inl ValueError
      else
        let load_vector = forces @ moments
        in case linalg_solve (abd_matrix self) load_vector of
             Inl e \<Rightarrow> Inl e
           | Inr result \<Rightarrow> Inr (take 3 result, drop 3 result))"

subsection \<open>\<^verbatim>\<open>calculate_ply_strains_stresses\<close>\<close>

text \<open>Python and numpy indexing with an \<^verbatim>\<open>int\<close>: a negative index counts from the end, and an
  index outside \<open>-n \<dots> n - 1\<close> raises \<^verbatim>\<open>IndexError\<close>.\<close>

definition py_index :: "nat \<Rightarrow> int \<Rightarrow> error + nat" where
  "py_index n i =
     (let j = (if i < 0 then int n + i else i)
      in if 0 \<le> j \<and> j < int n then Inr (nat j) else Inl IndexError)"

text \<open>The midplane strains and the curvatures are two one-dimensional arrays, or two columns
  of shape (n, 1) such as \<^verbatim>\<open>calculate_response\<close> returns. numpy adds two arrays of the same
  length entry by entry, stretches an array of one entry to the length of the other, and
  raises \<^verbatim>\<open>ValueError\<close> for any other pair of lengths.\<close>

definition np_add :: "vec \<Rightarrow> vec \<Rightarrow> error + vec" where
  "np_add a b =
     (if length a = length b then Inr (map2 (+) a b)
      else if length b = 1 then Inr (map (\<lambda>x. x + hd b) a)
      else if length a = 1 then Inr (map (\<lambda>y. hd a + y) b)
      else Inl ValueError)"

text \<open>\<^verbatim>\<open>M @ v\<close> raises \<^verbatim>\<open>ValueError\<close> unless \<open>v\<close> has as many entries as \<open>M\<close> has columns.\<close>

definition np_matvec :: "mat \<Rightarrow> vec \<Rightarrow> error + vec" where
  "np_matvec M v =
     (if list_all (\<lambda>r. length r = length v) M then Inr (matvec M v) else Inl ValueError)"

definition calculate_ply_strains_stresses ::
    "LaminateAnalysis \<Rightarrow> vec \<Rightarrow> vec \<Rightarrow> int \<Rightarrow> error + (vec \<times> vec \<times> vec \<times> vec)" where
  "calculate_ply_strains_stresses self midplane_strains curvatures ply_number =
     (let ply_idx = ply_number - 1
      in case py_index (length (self_z_m self)) ply_idx of Inl e \<Rightarrow> Inl e | Inr iz \<Rightarrow>
        (case np_add midplane_strains (map (\<lambda>c. self_z_m self ! iz * c) curvatures) of
           Inl e \<Rightarrow> Inl e | Inr global_strain \<Rightarrow>
        (case py_index (length (self_Q_bar self)) ply_idx of Inl e \<Rightarrow> Inl e | Inr iq \<Rightarrow>
        (case np_matvec (self_Q_bar self ! iq) global_strain of
           Inl e \<Rightarrow> Inl e | Inr global_stress \<Rightarrow>
        (case py_index (length (self_T_e self)) ply_idx of Inl e \<Rightarrow> Inl e | Inr ie \<Rightarrow>
        (case np_matvec (self_T_e self ! ie) global_strain of
           Inl e \<Rightarrow> Inl e | Inr local_strain \<Rightarrow>
        (case py_index (length (self_T self)) ply_idx of Inl e \<Rightarrow> Inl e | Inr it \<Rightarrow>
        (case np_matvec (self_T self ! it) global_stress of
           Inl e \<Rightarrow> Inl e | Inr local_stress \<Rightarrow>
             Inr (global_strain, global_stress, local_strain, local_stress)))))))))"

subsection \<open>Predicates for the statements\<close>

text \<open>A system of \<open>n\<close> equations in \<open>n\<close> unknowns, a square matrix, and a matrix with a trivial
  null space, which is what non-singular means.\<close>

definition wf_sys :: "nat \<Rightarrow> (real list \<times> real) list \<Rightarrow> bool" where
  "wf_sys n sys \<longleftrightarrow> length sys = n \<and> list_all (\<lambda>row. length (fst row) = n) sys"

definition square :: "nat \<Rightarrow> mat \<Rightarrow> bool" where
  "square n M \<longleftrightarrow> length M = n \<and> list_all (\<lambda>r. length r = n) M"

definition zeros :: "nat \<Rightarrow> vec" where
  "zeros n = replicate n 0"

definition nonsingular :: "mat \<Rightarrow> bool" where
  "nonsingular M \<longleftrightarrow>
     (\<forall>y. length y = length M \<longrightarrow> matvec M y = zeros (length M) \<longrightarrow> y = zeros (length M))"

text \<open>What \<^verbatim>\<open>_calculate_transformation\<close> returns as \<open>Q_bar\<close>, with the inverse of \<open>T\<close> written
  as the transform of the opposite angle, and a matrix that equals its transpose.\<close>

definition Q_bar_of :: "mat \<Rightarrow> real \<Rightarrow> mat" where
  "Q_bar_of Q th =
     matmul (matmul (T_matrix (cos th) (- sin th)) Q) (T_e_matrix (cos th) (sin th))"

definition symmetric :: "mat \<Rightarrow> bool" where
  "symmetric M \<longleftrightarrow> transpose M = M"

text \<open>The first steps of \<^verbatim>\<open>__init__\<close> that can raise, on their own: reading the four
  properties of the material, the division for \<open>V21\<close>, and \<^verbatim>\<open>_calculate_Q\<close>. The result is
  \<open>Q\<close>, or the exception of the first step that raises.\<close>

definition read_material :: "(string \<Rightarrow> real option) \<Rightarrow> error + mat" where
  "read_material material_properties =
     (case dict_get material_properties ''E11'' of Inl e \<Rightarrow> Inl e | Inr E11 \<Rightarrow>
     (case dict_get material_properties ''E22'' of Inl e \<Rightarrow> Inl e | Inr E22 \<Rightarrow>
     (case dict_get material_properties ''G12'' of Inl e \<Rightarrow> Inl e | Inr G12 \<Rightarrow>
     (case dict_get material_properties ''V12'' of Inl e \<Rightarrow> Inl e | Inr V12 \<Rightarrow>
     (if E11 = 0 then Inl ZeroDivisionError
      else calculate_Q E11 E22 G12 V12 (V12 * E22 / E11))))))"

text \<open>\<^verbatim>\<open>np.zeros((3, 3))\<close>.\<close>

definition zeros_3_3 :: mat where
  "zeros_3_3 = [[0, 0, 0], [0, 0, 0], [0, 0, 0]]"

subsection \<open>Example laminates\<close>

text \<open>A material with \<open>V12 \<noteq> 0\<close>, the cross-ply laminate \<open>[0, 90]\<close> of two plies of
  thickness 1 built from it, and the laminate of no plies.\<close>

definition example_material :: "string \<Rightarrow> real option" where
  "example_material = [''E11'' \<mapsto> 4, ''E22'' \<mapsto> 1, ''G12'' \<mapsto> 1, ''V12'' \<mapsto> 1 / 2]"

definition example_laminate :: LaminateAnalysis where
  "example_laminate =
     \<lparr>self_angles = [0, 90], self_theta = [0, pi / 2], self_t = [1, 1], self_k = 2,
      self_E11 = 4, self_E22 = 1, self_G12 = 1, self_V12 = 1 / 2, self_V21 = 1 / 8,
      self_Q = [[64 / 15, 8 / 15, 0], [8 / 15, 16 / 15, 0], [0, 0, 1]],
      self_z = [0, 1], self_z_m = [- (1 / 2), 1 / 2],
      self_Q_bar = [[[64 / 15, 8 / 15, 0], [8 / 15, 16 / 15, 0], [0, 0, 1]],
                    [[16 / 15, 8 / 15, 0], [8 / 15, 64 / 15, 0], [0, 0, 1]]],
      self_T = [[[1, 0, 0], [0, 1, 0], [0, 0, 1]], [[0, 1, 0], [1, 0, 0], [0, 0, - 1]]],
      self_T_e = [[[1, 0, 0], [0, 1, 0], [0, 0, 1]], [[0, 1, 0], [1, 0, 0], [0, 0, - 1]]],
      self_A = [[16 / 3, 16 / 15, 0], [16 / 15, 16 / 3, 0], [0, 0, 2]],
      self_B = [[- (8 / 5), 0, 0], [0, 8 / 5, 0], [0, 0, 0]],
      self_D = [[16 / 9, 16 / 45, 0], [16 / 45, 16 / 9, 0], [0, 0, 2 / 3]]\<rparr>"

definition empty_laminate :: LaminateAnalysis where
  "empty_laminate =
     \<lparr>self_angles = [], self_theta = [], self_t = [], self_k = 0,
      self_E11 = 4, self_E22 = 1, self_G12 = 1, self_V12 = 1 / 2, self_V21 = 1 / 8,
      self_Q = [[64 / 15, 8 / 15, 0], [8 / 15, 16 / 15, 0], [0, 0, 1]],
      self_z = [], self_z_m = [], self_Q_bar = [], self_T = [], self_T_e = [],
      self_A = [[0, 0, 0], [0, 0, 0], [0, 0, 0]],
      self_B = [[0, 0, 0], [0, 0, 0], [0, 0, 0]],
      self_D = [[0, 0, 0], [0, 0, 0], [0, 0, 0]]\<rparr>"


section \<open>Gaussian elimination\<close>

lemma dot_Nil [simp]: "dot [] ys = 0" "dot xs [] = 0"
  by (simp_all add: dot_def)

lemma dot_Cons [simp]: "dot (a # as) (x # xs) = a * x + dot as xs"
  by (simp add: dot_def)

lemma dot_zeros [simp]: "dot xs (replicate n 0) = 0"
proof (induction xs arbitrary: n)
  case Nil
  show ?case by simp
next
  case (Cons a as)
  show ?case by (cases n) (simp_all add: Cons.IH)
qed

lemma dot_eliminated:
  "length cs = length xs \<Longrightarrow> length qs = length xs \<Longrightarrow>
   dot (map2 (\<lambda>c q. c - m * q) cs qs) xs = dot cs xs - m * dot qs xs"
proof (induction xs arbitrary: cs qs)
  case Nil
  then show ?case by simp
next
  case (Cons x xs)
  then obtain c cs' q qs' where "cs = c # cs'" "qs = q # qs'"
    by (cases cs; cases qs) auto
  with Cons show ?case by (simp add: algebra_simps)
qed

lemma idamax_less: "xs \<noteq> [] \<Longrightarrow> idamax xs < length xs"
proof (induction xs)
  case Nil
  then show ?case by simp
next
  case (Cons x xs)
  show ?case
  proof (cases "list_all (\<lambda>y. \<bar>y\<bar> \<le> \<bar>x\<bar>) xs")
    case True
    then show ?thesis by simp
  next
    case False
    then have "xs \<noteq> []" by auto
    with Cons.IH False show ?thesis by simp
  qed
qed

lemma idamax_max: "y \<in> set xs \<Longrightarrow> \<bar>y\<bar> \<le> \<bar>xs ! idamax xs\<bar>"
proof (induction xs arbitrary: y)
  case Nil
  then show ?case by simp
next
  case (Cons x xs)
  show ?case
  proof (cases "list_all (\<lambda>y. \<bar>y\<bar> \<le> \<bar>x\<bar>) xs")
    case True
    with Cons.prems show ?thesis by (auto simp: list_all_iff)
  next
    case False
    then obtain w where w: "w \<in> set xs" "\<bar>x\<bar> < \<bar>w\<bar>"
      by (auto simp: list_all_iff not_le)
    from Cons.IH [OF w(1)] w(2) have "\<bar>x\<bar> \<le> \<bar>xs ! idamax xs\<bar>" by linarith
    with False Cons show ?thesis by auto
  qed
qed

lemma gesv_step:
  assumes "wf_sys (Suc n) sys"
  obtains a as b rest where
    "set sys = insert (a # as, b) (set rest)"
    "length as = n"
    "length rest = n"
    "\<And>row. row \<in> set rest \<Longrightarrow> length (fst row) = Suc n"
    "\<And>row. a = 0 \<Longrightarrow> row \<in> set sys \<Longrightarrow> hd (fst row) = 0"
    "gesv sys =
       (if a = 0 then Inl LinAlgError
        else (case gesv (map (eliminate (a # as, b)) rest) of
                Inl e \<Rightarrow> Inl e
              | Inr xs \<Rightarrow> Inr ((b - dot as xs) / a # xs)))"
proof -
  from assms obtain r rs where sys: "sys = r # rs"
    by (cases sys) (auto simp: wf_sys_def)
  define p where "p = idamax (map (\<lambda>row. hd (fst row)) sys)"
  define rows where "rows = swap_rows sys p"
  have p: "p < length sys"
    unfolding p_def using idamax_less [of "map (\<lambda>row. hd (fst row)) sys"] sys by simp
  have len: "length rows = Suc n"
    using assms by (simp add: rows_def swap_rows_def wf_sys_def)
  have set_rows: "set rows = set sys"
    unfolding rows_def swap_rows_def using p sys by (intro set_swap) auto
  from len obtain piv rest where rows: "rows = piv # rest"
    by (cases rows) auto
  have piv_in: "piv \<in> set sys" using set_rows rows by auto
  have all_len: "\<And>row. row \<in> set sys \<Longrightarrow> length (fst row) = Suc n"
    using assms by (auto simp: wf_sys_def list_all_iff)
  obtain pr b where piv: "piv = (pr, b)" by (cases piv)
  from all_len [OF piv_in] piv obtain a as where pr: "pr = a # as" "length as = n"
    by (cases pr) auto
  have piv_is: "piv = sys ! p"
    using rows p sys by (cases p) (auto simp: rows_def swap_rows_def)
  have "sys ! p = (a # as, b)"
    using piv_is piv pr by simp
  then have a_is: "a = map (\<lambda>row. hd (fst row)) sys ! p"
    using p by simp
  have zero: "hd (fst row) = 0" if "a = 0" "row \<in> set sys" for row
  proof -
    have "hd (fst row) \<in> set (map (\<lambda>row. hd (fst row)) sys)" using that by auto
    from idamax_max [OF this] have "\<bar>hd (fst row)\<bar> \<le> \<bar>a\<bar>"
      unfolding a_is p_def .
    with that show ?thesis by simp
  qed
  have g: "gesv sys =
       (if a = 0 then Inl LinAlgError
        else (case gesv (map (eliminate (a # as, b)) rest) of
                Inl e \<Rightarrow> Inl e
              | Inr xs \<Rightarrow> Inr ((b - dot as xs) / a # xs)))"
    using rows piv pr unfolding sys gesv.simps rows_def p_def sys
    by (simp add: Let_def del: idamax.simps split: sum.splits)
  show thesis
  proof (rule that [of a as b rest])
    show "set sys = insert (a # as, b) (set rest)"
      using set_rows rows piv pr by auto
    show "length as = n" by (rule pr)
    show "length rest = n" using len rows by simp
    show "\<And>row. row \<in> set rest \<Longrightarrow> length (fst row) = Suc n"
      using all_len set_rows rows by auto
    show "\<And>row. a = 0 \<Longrightarrow> row \<in> set sys \<Longrightarrow> hd (fst row) = 0"
      using zero by blast
    show "gesv sys =
       (if a = 0 then Inl LinAlgError
        else (case gesv (map (eliminate (a # as, b)) rest) of
                Inl e \<Rightarrow> Inl e
              | Inr xs \<Rightarrow> Inr ((b - dot as xs) / a # xs)))" by (rule g)
  qed
qed


lemma wf_sys_eliminate:
  assumes "length as = n" "length rest = n"
    and "\<And>row. row \<in> set rest \<Longrightarrow> length (fst row) = Suc n"
  shows "wf_sys n (map (eliminate (a # as, b)) rest)"
  using assms by (auto simp: wf_sys_def list_all_iff eliminate_def Let_def)

lemma eliminate_row:
  assumes "length as = length xs" "fst row = c # cs" "length cs = length xs"
  shows "dot (fst (eliminate (a # as, b) row)) xs = dot cs xs - c / a * dot as xs"
    and "snd (eliminate (a # as, b) row) = snd row - c / a * b"
  using assms dot_eliminated [of cs xs as "c / a"]
  by (simp_all add: eliminate_def Let_def del: times_divide_eq_left)

lemma gesv_sound:
  "wf_sys n sys \<Longrightarrow> gesv sys = Inr x \<Longrightarrow>
   length x = n \<and> (\<forall>row\<in>set sys. dot (fst row) x = snd row)"
proof (induction n arbitrary: sys x)
  case 0
  then show ?case by (auto simp: wf_sys_def)
next
  case (Suc n)
  from Suc.prems(1) obtain a as b rest where
    sys: "set sys = insert (a # as, b) (set rest)" and
    las: "length as = n" and lrest: "length rest = n" and
    lrow: "\<And>row. row \<in> set rest \<Longrightarrow> length (fst row) = Suc n" and
    zero: "\<And>row. a = 0 \<Longrightarrow> row \<in> set sys \<Longrightarrow> hd (fst row) = 0" and
    g: "gesv sys =
       (if a = 0 then Inl LinAlgError
        else (case gesv (map (eliminate (a # as, b)) rest) of
                Inl e \<Rightarrow> Inl e
              | Inr xs \<Rightarrow> Inr ((b - dot as xs) / a # xs)))"
    by (rule gesv_step) blast
  from Suc.prems(2) g have a: "a \<noteq> 0" by (auto split: if_splits)
  from Suc.prems(2) g a obtain xs where
    xs: "gesv (map (eliminate (a # as, b)) rest) = Inr xs" and
    x: "x = (b - dot as xs) / a # xs"
    by (auto split: sum.splits)
  have wf: "wf_sys n (map (eliminate (a # as, b)) rest)"
    using las lrest lrow by (rule wf_sys_eliminate)
  from Suc.IH [OF wf xs] have len: "length xs = n"
    and sat: "\<And>row. row \<in> set rest \<Longrightarrow>
      dot (fst (eliminate (a # as, b) row)) xs = snd (eliminate (a # as, b) row)"
    by auto
  have piv: "dot (a # as) x = b"
    using a by (simp add: x)
  have other: "dot (fst row) x = snd row" if "row \<in> set rest" for row
  proof -
    from lrow [OF that] obtain c cs where row: "fst row = c # cs" "length cs = n"
      by (cases "fst row") auto
    have "dot cs xs - c / a * dot as xs = snd row - c / a * b"
      using sat [OF that] eliminate_row [of as xs row c cs a b] las len row by simp
    then show ?thesis
      using a by (simp add: x row field_simps)
  qed
  show ?case
    using piv other len by (auto simp: sys x)
qed

lemma gesv_unique:
  "wf_sys n sys \<Longrightarrow> gesv sys = Inr x \<Longrightarrow> length y = n \<Longrightarrow>
   (\<forall>row\<in>set sys. dot (fst row) y = 0) \<Longrightarrow> y = replicate n 0"
proof (induction n arbitrary: sys x y)
  case 0
  then show ?case by simp
next
  case (Suc n)
  from Suc.prems(1) obtain a as b rest where
    sys: "set sys = insert (a # as, b) (set rest)" and
    las: "length as = n" and lrest: "length rest = n" and
    lrow: "\<And>row. row \<in> set rest \<Longrightarrow> length (fst row) = Suc n" and
    zero: "\<And>row. a = 0 \<Longrightarrow> row \<in> set sys \<Longrightarrow> hd (fst row) = 0" and
    g: "gesv sys =
       (if a = 0 then Inl LinAlgError
        else (case gesv (map (eliminate (a # as, b)) rest) of
                Inl e \<Rightarrow> Inl e
              | Inr xs \<Rightarrow> Inr ((b - dot as xs) / a # xs)))"
    by (rule gesv_step) blast
  from Suc.prems(2) g have a: "a \<noteq> 0" by (auto split: if_splits)
  from Suc.prems(2) g a obtain xs where
    xs: "gesv (map (eliminate (a # as, b)) rest) = Inr xs"
    by (auto split: sum.splits)
  from Suc.prems(3) obtain y0 ys where y: "y = y0 # ys" "length ys = n"
    by (cases y) auto
  have wf: "wf_sys n (map (eliminate (a # as, b)) rest)"
    using las lrest lrow by (rule wf_sys_eliminate)
  have piv: "a * y0 + dot as ys = 0"
    using Suc.prems(4) sys y by auto
  have red: "dot (fst (eliminate (a # as, b) row)) ys = 0" if "row \<in> set rest" for row
  proof -
    from lrow [OF that] obtain c cs where row: "fst row = c # cs" "length cs = n"
      by (cases "fst row") auto
    have "c * y0 + dot cs ys = 0"
      using Suc.prems(4) sys that y row by auto
    moreover have "dot as ys = - a * y0" using piv by simp
    ultimately have "dot cs ys - c / a * dot as ys = 0"
      using a by (simp add: field_simps)
    then show ?thesis
      using eliminate_row(1) [of as ys row c cs a b] las y row by simp
  qed
  have "ys = replicate n 0"
    using Suc.IH [OF wf xs y(2)] red by auto
  moreover from this piv a have "y0 = 0" by simp
  ultimately show ?case by (simp add: y)
qed

lemma gesv_fails:
  "wf_sys n sys \<Longrightarrow> gesv sys = Inl e \<Longrightarrow>
   e = LinAlgError \<and>
   (\<exists>y. length y = n \<and> y \<noteq> replicate n 0 \<and> (\<forall>row\<in>set sys. dot (fst row) y = 0))"
proof (induction n arbitrary: sys e)
  case 0
  then show ?case by (auto simp: wf_sys_def)
next
  case (Suc n)
  from Suc.prems(1) obtain a as b rest where
    sys: "set sys = insert (a # as, b) (set rest)" and
    las: "length as = n" and lrest: "length rest = n" and
    lrow: "\<And>row. row \<in> set rest \<Longrightarrow> length (fst row) = Suc n" and
    zero: "\<And>row. a = 0 \<Longrightarrow> row \<in> set sys \<Longrightarrow> hd (fst row) = 0" and
    g: "gesv sys =
       (if a = 0 then Inl LinAlgError
        else (case gesv (map (eliminate (a # as, b)) rest) of
                Inl e \<Rightarrow> Inl e
              | Inr xs \<Rightarrow> Inr ((b - dot as xs) / a # xs)))"
    by (rule gesv_step) blast
  have all_len: "length (fst row) = Suc n" if "row \<in> set sys" for row
  proof (cases "row = (a # as, b)")
    case True
    then show ?thesis using las by simp
  next
    case False
    with that sys have "row \<in> set rest" by simp
    then show ?thesis by (rule lrow)
  qed
  show ?case
  proof (cases "a = 0")
    case True
    have "dot (fst row) (1 # replicate n 0) = 0" if "row \<in> set sys" for row
    proof -
      from all_len [OF that] obtain c cs where row: "fst row = c # cs"
        by (cases "fst row") auto
      with zero [OF True that] show ?thesis by simp
    qed
    moreover have "(1::real) # replicate n 0 \<noteq> replicate (Suc n) 0" by simp
    moreover have "e = LinAlgError" using Suc.prems(2) g True by simp
    ultimately show ?thesis
      by (intro conjI exI [of _ "1 # replicate n 0"]) auto
  next
    case False
    with Suc.prems(2) g have
      f: "gesv (map (eliminate (a # as, b)) rest) = Inl e"
      by (auto split: sum.splits)
    have wf: "wf_sys n (map (eliminate (a # as, b)) rest)"
      using las lrest lrow by (rule wf_sys_eliminate)
    from Suc.IH [OF wf f] obtain ys where e: "e = LinAlgError" and
      ys: "length ys = n" "ys \<noteq> replicate n 0" and
      red: "\<And>row. row \<in> set rest \<Longrightarrow> dot (fst (eliminate (a # as, b) row)) ys = 0"
      by auto
    define y0 where "y0 = - dot as ys / a"
    have piv: "dot (a # as) (y0 # ys) = 0"
      using False by (simp add: y0_def)
    have other: "dot (fst row) (y0 # ys) = 0" if "row \<in> set rest" for row
    proof -
      from lrow [OF that] obtain c cs where row: "fst row = c # cs" "length cs = n"
        by (cases "fst row") auto
      have "dot cs ys - c / a * dot as ys = 0"
        using red [OF that] eliminate_row(1) [of as ys row c cs a b] las ys row by simp
      then show ?thesis
        using False by (simp add: row y0_def field_simps)
    qed
    have "\<forall>row\<in>set sys. dot (fst row) (y0 # ys) = 0"
      using piv other by (auto simp: sys)
    moreover have "y0 # ys \<noteq> replicate (Suc n) 0" using ys by auto
    ultimately show ?thesis
      using e ys(1) by (intro conjI exI [of _ "y0 # ys"]) auto
  qed
qed


lemma wf_sys_zip: "square n M \<Longrightarrow> length b = n \<Longrightarrow> wf_sys n (zip M b)"
  by (auto simp: square_def wf_sys_def list_all_iff dest: set_zip_leftD)

lemma zip_rows_iff:
  "length b = length M \<Longrightarrow>
   (\<forall>row\<in>set (zip M b). P (fst row) (snd row)) \<longleftrightarrow> (\<forall>i<length M. P (M ! i) (b ! i))"
  by (fastforce simp: set_zip)

lemma matvec_eq_iff:
  assumes "length b = length M"
  shows "matvec M x = b \<longleftrightarrow> (\<forall>row\<in>set (zip M b). dot (fst row) x = snd row)"
proof -
  have "matvec M x = b \<longleftrightarrow> (\<forall>i<length M. dot (M ! i) x = b ! i)"
    using assms by (auto simp: matvec_def list_eq_iff_nth_eq)
  also have "\<dots> \<longleftrightarrow> (\<forall>row\<in>set (zip M b). dot (fst row) x = snd row)"
    using zip_rows_iff [OF assms, of "\<lambda>r c. dot r x = c"] by simp
  finally show ?thesis .
qed

lemma matvec_zeros_iff:
  fixes b :: "real list"
  assumes "length b = length M"
  shows "matvec M y = zeros (length M) \<longleftrightarrow> (\<forall>row\<in>set (zip M b). dot (fst row) y = 0)"
proof -
  have "matvec M y = zeros (length M) \<longleftrightarrow> (\<forall>i<length M. dot (M ! i) y = 0)"
    by (auto simp: matvec_def zeros_def list_eq_iff_nth_eq)
  also have "\<dots> \<longleftrightarrow> (\<forall>row\<in>set (zip M b). dot (fst row) y = 0)"
    using zip_rows_iff [OF assms, of "\<lambda>r c. dot r y = 0"] by simp
  finally show ?thesis .
qed

lemma linalg_solve_sound:
  assumes "square n M" "length b = n" "linalg_solve M b = Inr x"
  shows "length x = n" and "matvec M x = b"
proof -
  have wf: "wf_sys n (zip M b)" using assms(1,2) by (rule wf_sys_zip)
  have g: "gesv (zip M b) = Inr x" using assms(3) by (simp add: linalg_solve_def)
  from gesv_sound [OF wf g] show "length x = n" by simp
  have "length b = length M" using assms(1,2) by (simp add: square_def)
  with gesv_sound [OF wf g] show "matvec M x = b" by (simp add: matvec_eq_iff)
qed

lemma linalg_solve_nonsingular:
  assumes "square n M" "length b = n" "linalg_solve M b = Inr x"
  shows "nonsingular M"
  unfolding nonsingular_def
proof (intro allI impI)
  fix y assume y: "length y = length M" "matvec M y = zeros (length M)"
  have wf: "wf_sys n (zip M b)" using assms(1,2) by (rule wf_sys_zip)
  have g: "gesv (zip M b) = Inr x" using assms(3) by (simp add: linalg_solve_def)
  have n: "length M = n" "length b = length M" using assms(1,2) by (simp_all add: square_def)
  have "\<forall>row\<in>set (zip M b). dot (fst row) y = 0"
    using y(2) matvec_zeros_iff [OF n(2), of y] by simp
  with gesv_unique [OF wf g, of y] y(1) n show "y = zeros (length M)"
    by (simp add: zeros_def)
qed

lemma linalg_solve_singular:
  assumes "square n M" "length b = n" "linalg_solve M b = Inl e"
  shows "e = LinAlgError" and "\<not> nonsingular M"
proof -
  have wf: "wf_sys n (zip M b)" using assms(1,2) by (rule wf_sys_zip)
  have g: "gesv (zip M b) = Inl e" using assms(3) by (simp add: linalg_solve_def)
  have n: "length M = n" "length b = length M" using assms(1,2) by (simp_all add: square_def)
  from gesv_fails [OF wf g] obtain y where e: "e = LinAlgError" and
    y: "length y = n" "y \<noteq> replicate n 0" "\<forall>row\<in>set (zip M b). dot (fst row) y = 0"
    by auto
  show "e = LinAlgError" by (rule e)
  have "matvec M y = zeros (length M)" using y(3) matvec_zeros_iff [OF n(2), of y] by simp
  with y(1,2) n(1) show "\<not> nonsingular M"
    by (auto simp: nonsingular_def zeros_def)
qed

lemma linalg_solve_total:
  assumes "square n M" "length b = n" "nonsingular M"
  obtains x where "linalg_solve M b = Inr x"
  using assms linalg_solve_singular(2) [of n M b] by (cases "linalg_solve M b") auto

section \<open>The inverse of the stress transform\<close>

lemma matvec_zeros [simp]: "matvec N (replicate n 0) = replicate (length N) 0"
  by (simp add: matvec_def map_replicate_const)

lemma left_inverse_nonsingular:
  assumes "length N = length M"
    and "\<And>y. length y = length M \<Longrightarrow> matvec N (matvec M y) = y"
  shows "nonsingular M"
  unfolding nonsingular_def zeros_def
proof (intro allI impI)
  fix y assume y: "length y = length M" "matvec M y = replicate (length M) 0"
  from assms(2) [OF y(1)] y(2) have "y = matvec N (replicate (length M) 0)" by simp
  then show "y = replicate (length M) 0" using assms(1) by simp
qed

lemma solve_columns_left_inverse:
  assumes "square n M" "length N = n"
    and "\<And>y. length y = n \<Longrightarrow> matvec N (matvec M y) = y"
  shows "(\<forall>b\<in>set bs. length b = n) \<Longrightarrow> solve_columns M bs = Inr (map (matvec N) bs)"
proof (induction bs)
  case Nil
  show ?case by simp
next
  case (Cons b bs)
  have n: "length M = n" using assms(1) by (simp add: square_def)
  have b: "length b = n" using Cons.prems by simp
  have ns: "nonsingular M"
    using assms(2,3) n by (intro left_inverse_nonsingular [of N]) auto
  from assms(1) b ns obtain x where x: "linalg_solve M b = Inr x"
    by (rule linalg_solve_total)
  from linalg_solve_sound [OF assms(1) b x] assms(3) [of x]
  have "x = matvec N b" by simp
  with x Cons show ?case by simp
qed

lemma linalg_inv_left_inverse:
  assumes "square n M" "length N = n"
    and "\<And>y. length y = n \<Longrightarrow> matvec N (matvec M y) = y"
  shows "linalg_inv M = Inr (transpose (map (\<lambda>j. matvec N (unit_vec n j)) [0..<n]))"
proof -
  have n: "length M = n" using assms(1) by (simp add: square_def)
  have "solve_columns M (map (unit_vec n) [0..<n]) = Inr (map (matvec N) (map (unit_vec n) [0..<n]))"
    using assms by (intro solve_columns_left_inverse) (auto simp: unit_vec_def)
  then show ?thesis by (simp add: linalg_inv_def n comp_def)
qed

lemma upt_3: "[0..<3] = [0, 1, 2]"
  by (simp add: upt_rec)

lemma length_3E:
  assumes "length (y :: 'a list) = 3"
  obtains y1 y2 y3 where "y = [y1, y2, y3]"
  using assms by (cases y; cases "tl y"; cases "tl (tl y)") auto

lemma T_left_inverse:
  assumes "c\<^sup>2 + s\<^sup>2 = (1::real)"
  shows "matvec (T_matrix c (- s)) (matvec (T_matrix c s) [y1, y2, y3]) = [y1, y2, y3]"
proof -
  have a: "c\<^sup>2 * (c\<^sup>2 * y1 + s\<^sup>2 * y2 + 2 * s * c * y3) + s\<^sup>2 * (s\<^sup>2 * y1 + c\<^sup>2 * y2 - 2 * s * c * y3)
      - 2 * s * c * (- s * c * y1 + s * c * y2 + (c\<^sup>2 - s\<^sup>2) * y3) = (c\<^sup>2 + s\<^sup>2)\<^sup>2 * y1"
    by (simp add: power2_eq_square algebra_simps)
  have b: "s\<^sup>2 * (c\<^sup>2 * y1 + s\<^sup>2 * y2 + 2 * s * c * y3) + c\<^sup>2 * (s\<^sup>2 * y1 + c\<^sup>2 * y2 - 2 * s * c * y3)
      + 2 * s * c * (- s * c * y1 + s * c * y2 + (c\<^sup>2 - s\<^sup>2) * y3) = (c\<^sup>2 + s\<^sup>2)\<^sup>2 * y2"
    by (simp add: power2_eq_square algebra_simps)
  have c: "s * c * (c\<^sup>2 * y1 + s\<^sup>2 * y2 + 2 * s * c * y3) - s * c * (s\<^sup>2 * y1 + c\<^sup>2 * y2 - 2 * s * c * y3)
      + (c\<^sup>2 - s\<^sup>2) * (- s * c * y1 + s * c * y2 + (c\<^sup>2 - s\<^sup>2) * y3) = (c\<^sup>2 + s\<^sup>2)\<^sup>2 * y3"
    by (simp add: power2_eq_square algebra_simps)
  show ?thesis
    using a b c by (simp add: T_matrix_def matvec_def assms algebra_simps)
qed

lemma linalg_inv_T:
  assumes "c\<^sup>2 + s\<^sup>2 = (1::real)"
  shows "linalg_inv (T_matrix c s) = Inr (T_matrix c (- s))"
proof -
  have sq: "square 3 (T_matrix c s)" by (simp add: square_def T_matrix_def)
  have len: "length (T_matrix c (- s)) = 3" by (simp add: T_matrix_def)
  have li: "matvec (T_matrix c (- s)) (matvec (T_matrix c s) y) = y" if "length y = 3" for y
  proof -
    from that obtain y1 y2 y3 where "y = [y1, y2, y3]" by (rule length_3E)
    then show ?thesis using T_left_inverse [OF assms] by simp
  qed
  have "linalg_inv (T_matrix c s) =
      Inr (transpose (map (\<lambda>j. matvec (T_matrix c (- s)) (unit_vec 3 j)) [0..<3]))"
    using sq len li by (rule linalg_inv_left_inverse)
  also have "\<dots> = Inr (T_matrix c (- s))"
    by (simp add: upt_3 unit_vec_def matvec_def T_matrix_def eval_nat_numeral)
  finally show ?thesis .
qed

section \<open>The transforms of the plies and the z-coordinates\<close>

lemma calculate_transformation_eq:
  "calculate_transformation th Q =
     Inr (T_matrix (cos th) (sin th), T_e_matrix (cos th) (sin th), Q_bar_of Q th)"
proof -
  have "(cos th)\<^sup>2 + (sin th)\<^sup>2 = 1" by simp
  then have "linalg_inv (T_matrix (cos th) (sin th)) = Inr (T_matrix (cos th) (- sin th))"
    by (rule linalg_inv_T)
  then show ?thesis
    by (simp add: calculate_transformation_def Let_def Q_bar_of_def)
qed

lemma ply_loop_eq:
  "ply_loop ths Q (Ts, T_es, Q_bars) =
     Inr (Ts @ map (\<lambda>th. T_matrix (cos th) (sin th)) ths,
          T_es @ map (\<lambda>th. T_e_matrix (cos th) (sin th)) ths,
          Q_bars @ map (Q_bar_of Q) ths)"
  by (induction ths arbitrary: Ts T_es Q_bars) (simp_all add: calculate_transformation_eq)

lemma z_loop_fails:
  "i \<le> length t \<Longrightarrow> length t < k \<Longrightarrow> z_loop t k i (z, z_m, c) = Inl IndexError"
proof (induction t k i "(z, z_m, c)" arbitrary: z z_m c rule: z_loop.induct)
  case (1 t k i z z_m c)
  show ?case
  proof (cases "i < length t")
    case True
    with "1.prems" have ik: "i < k" by simp
    from "1.hyps" [OF ik True] True "1.prems" ik
    show ?thesis by (subst z_loop.simps) simp
  next
    case False
    with "1.prems" show ?thesis by (subst z_loop.simps) simp
  qed
qed

lemma z_loop_result:
  "k \<le> length t \<Longrightarrow> i \<le> k \<Longrightarrow> length z = k \<Longrightarrow> length z_m = k \<Longrightarrow>
   \<exists>z' z_m'. z_loop t k i (z, z_m, c) = Inr (z', z_m') \<and> length z' = k \<and> length z_m' = k \<and>
     (\<forall>j<k. z' ! j = (if j < i then z ! j else c + (\<Sum>l = i..j. t ! l)) \<and>
            z_m' ! j = (if j < i then z_m ! j else c + (\<Sum>l = i..<j. t ! l) + t ! j / 2))"
proof (induction t k i "(z, z_m, c)" arbitrary: z z_m c rule: z_loop.induct)
  case (1 t k i z z_m c)
  show ?case
  proof (cases "i < k")
    case False
    with "1.prems" show ?thesis by (subst z_loop.simps) simp
  next
    case True
    then have it: "i < length t" using "1.prems" by simp
    have "\<exists>z' z_m'.
        z_loop t k (Suc i) (z[i := c + t ! i], z_m[i := c + t ! i / 2], c + t ! i) = Inr (z', z_m') \<and>
        length z' = k \<and> length z_m' = k \<and>
        (\<forall>j<k. z' ! j = (if j < Suc i then z[i := c + t ! i] ! j
                          else c + t ! i + (\<Sum>l = Suc i..j. t ! l)) \<and>
               z_m' ! j = (if j < Suc i then z_m[i := c + t ! i / 2] ! j
                           else c + t ! i + (\<Sum>l = Suc i..<j. t ! l) + t ! j / 2))"
      using "1.prems" True by (intro "1.hyps" [OF True it]) simp_all
    then obtain z' z_m' where
      r: "z_loop t k (Suc i) (z[i := c + t ! i], z_m[i := c + t ! i / 2], c + t ! i) = Inr (z', z_m')"
      and len: "length z' = k" "length z_m' = k"
      and vals: "\<And>j. j < k \<Longrightarrow>
         z' ! j = (if j < Suc i then z[i := c + t ! i] ! j else c + t ! i + (\<Sum>l = Suc i..j. t ! l)) \<and>
         z_m' ! j = (if j < Suc i then z_m[i := c + t ! i / 2] ! j
                     else c + t ! i + (\<Sum>l = Suc i..<j. t ! l) + t ! j / 2)"
      by blast
    have eq: "z_loop t k i (z, z_m, c) = Inr (z', z_m')"
      using True it r by (subst z_loop.simps) simp
    have "z' ! j = (if j < i then z ! j else c + (\<Sum>l = i..j. t ! l)) \<and>
          z_m' ! j = (if j < i then z_m ! j else c + (\<Sum>l = i..<j. t ! l) + t ! j / 2)"
      if j: "j < k" for j
    proof -
      consider "j < i" | "j = i" | "i < j" by linarith
      then show ?thesis
      proof cases
        case 1
        with vals [OF j] show ?thesis by simp
      next
        case 2
        with vals [OF j] "1.prems" True show ?thesis by simp
      next
        case 3
        then have "(\<Sum>l = i..j. t ! l) = t ! i + (\<Sum>l = Suc i..j. t ! l)"
          by (simp add: sum.atLeast_Suc_atMost)
        moreover from 3 have "(\<Sum>l = i..<j. t ! l) = t ! i + (\<Sum>l = Suc i..<j. t ! l)"
          by (simp add: sum.atLeast_Suc_lessThan)
        ultimately show ?thesis using vals [OF j] 3 by simp
      qed
    qed
    with eq len show ?thesis by blast
  qed
qed

section \<open>The state after construction\<close>

lemma init_Inr:
  assumes "LaminateAnalysis_init layup_angles thicknesses material_properties = Inr L"
  shows "self_angles L = layup_angles"
    and "self_theta L = map (\<lambda>a. a * pi / 180) layup_angles"
    and "self_t L = (case thicknesses of Number x \<Rightarrow> replicate (length layup_angles) x | Array ts \<Rightarrow> ts)"
    and "self_k L = length layup_angles"
    and "self_E11 L \<noteq> 0"
    and "self_V21 L = self_V12 L * self_E22 L / self_E11 L"
    and "calculate_Q (self_E11 L) (self_E22 L) (self_G12 L) (self_V12 L) (self_V21 L) = Inr (self_Q L)"
    and "calculate_z_coordinates (self_t L) (self_k L) = Inr (self_z L, self_z_m L)"
    and "self_T L = map (\<lambda>th. T_matrix (cos th) (sin th)) (self_theta L)"
    and "self_T_e L = map (\<lambda>th. T_e_matrix (cos th) (sin th)) (self_theta L)"
    and "self_Q_bar L = map (Q_bar_of (self_Q L)) (self_theta L)"
    and "calculate_ABD_matrices (self_k L) (self_t L) (self_z L) (self_Q_bar L) =
           Inr (self_A L, self_B L, self_D L)"
  using assms
  by (auto simp: LaminateAnalysis_init_def Let_def ply_loop_eq split: sum.splits if_splits prod.splits)

section \<open>The stiffness matrices\<close>

lemma foldl_add_sum:
  "foldl (\<lambda>a ply. a + f ply) a0 [0..<k] = a0 + (\<Sum>ply<k. f ply :: real)"
  by (induction k) simp_all

lemma mat3_nth: "i < 3 \<Longrightarrow> j < 3 \<Longrightarrow> mat3 f ! i ! j = f i j"
  by (simp add: mat3_def)

lemma calculate_ABD_matrices_entries:
  assumes "calculate_ABD_matrices k t z Q_bar = Inr (A, B, D)" "i < 3" "j < 3"
  shows "A ! i ! j = (\<Sum>ply<k. Q_bar ! ply ! i ! j * t ! ply)"
    and "B ! i ! j = 1 / 2 * (\<Sum>ply<k. Q_bar ! ply ! i ! j * ((z ! ply)\<^sup>2 - (z ! ply - t ! ply)\<^sup>2))"
    and "D ! i ! j = 1 / 3 * (\<Sum>ply<k. Q_bar ! ply ! i ! j * ((z ! ply) ^ 3 - (z ! ply - t ! ply) ^ 3))"
proof -
  from assms(1) have A: "A = mat3 (A_entry k t Q_bar)" and B: "B = mat3 (B_entry k t z Q_bar)"
    and D: "D = mat3 (D_entry k t z Q_bar)"
    by (auto simp: calculate_ABD_matrices_def split: if_splits)
  show "A ! i ! j = (\<Sum>ply<k. Q_bar ! ply ! i ! j * t ! ply)"
    using assms(2,3) by (simp add: A mat3_nth A_entry_def foldl_add_sum)
  have "B ! i ! j = (\<Sum>ply<k. 1 / 2 * (Q_bar ! ply ! i ! j * ((z ! ply)\<^sup>2 - (z ! ply - t ! ply)\<^sup>2)))"
    using assms(2,3) by (simp add: B mat3_nth B_entry_def foldl_add_sum)
  then show "B ! i ! j = 1 / 2 * (\<Sum>ply<k. Q_bar ! ply ! i ! j * ((z ! ply)\<^sup>2 - (z ! ply - t ! ply)\<^sup>2))"
    by (simp only: sum_distrib_left)
  have "D ! i ! j = (\<Sum>ply<k. 1 / 3 * (Q_bar ! ply ! i ! j * ((z ! ply) ^ 3 - (z ! ply - t ! ply) ^ 3)))"
    using assms(2,3) by (simp add: D mat3_nth D_entry_def foldl_add_sum)
  then show "D ! i ! j = 1 / 3 * (\<Sum>ply<k. Q_bar ! ply ! i ! j * ((z ! ply) ^ 3 - (z ! ply - t ! ply) ^ 3))"
    by (simp only: sum_distrib_left)
qed

text \<open>
  \<^bold>\<open>C1.\<close> In every constructed laminate, for each index pair \<open>(i, j)\<close> the entry \<open>A[i, j]\<close> is
  the sum over the plies of \<open>Q_bar[ply][i, j]\<close> times the thickness of the ply, \<open>B[i, j]\<close> is one
  half of the sum of \<open>Q_bar[ply][i, j]\<close> times \<open>z_top\<^sup>2 - (z_top - t)\<^sup>2\<close>, and \<open>D[i, j]\<close> is one
  third of the sum of \<open>Q_bar[ply][i, j]\<close> times \<open>z_top\<^sup>3 - (z_top - t)\<^sup>3\<close>. The source adds
  the halves and thirds term by term; over the reals the factor comes out of the sum.
\<close>

theorem ABD_entries_are_ply_sums:
  assumes "LaminateAnalysis_init layup_angles thicknesses material_properties = Inr L"
    and "i < 3" and "j < 3"
  shows "self_A L ! i ! j =
           (\<Sum>ply<self_k L. self_Q_bar L ! ply ! i ! j * self_t L ! ply) \<and>
         self_B L ! i ! j =
           1 / 2 * (\<Sum>ply<self_k L. self_Q_bar L ! ply ! i ! j *
                      ((self_z L ! ply)\<^sup>2 - (self_z L ! ply - self_t L ! ply)\<^sup>2)) \<and>
         self_D L ! i ! j =
           1 / 3 * (\<Sum>ply<self_k L. self_Q_bar L ! ply ! i ! j *
                      ((self_z L ! ply) ^ 3 - (self_z L ! ply - self_t L ! ply) ^ 3))"
  using calculate_ABD_matrices_entries [OF init_Inr(12) [OF assms(1)] assms(2,3)]
  by simp

text \<open>
  \<^bold>\<open>C7.\<close> At the fibre angle 0, for any 3 by 3 \<open>Q\<close>, the stress and the strain transform are both the
  identity matrix, and the global stiffness of the ply is the material-axis \<open>Q\<close> itself.
\<close>

theorem transformation_at_zero_is_identity:
  "calculate_transformation 0 [[q11, q12, q13], [q21, q22, q23], [q31, q32, q33]] =
     Inr ([[1, 0, 0], [0, 1, 0], [0, 0, 1]],
          [[1, 0, 0], [0, 1, 0], [0, 0, 1]],
          [[q11, q12, q13], [q21, q22, q23], [q31, q32, q33]])"
  by (simp add: calculate_transformation_eq Q_bar_of_def T_matrix_def T_e_matrix_def
      matmul_def)

text \<open>
  \<^bold>\<open>C10.\<close> A thickness given as one number is assigned to every ply, and the constructor
  then returns exactly what it returns for the explicit list of \<open>k\<close> copies of that number:
  the same state, or the same error.
\<close>

theorem scalar_thickness_is_replicated:
  "LaminateAnalysis_init layup_angles (Number x) material_properties =
     LaminateAnalysis_init layup_angles (Array (replicate (length layup_angles) x))
       material_properties \<and>
   (\<forall>L. LaminateAnalysis_init layup_angles (Number x) material_properties = Inr L \<longrightarrow>
        self_t L = replicate (self_k L) x)"
proof (intro conjI allI impI)
  show "LaminateAnalysis_init layup_angles (Number x) material_properties =
     LaminateAnalysis_init layup_angles (Array (replicate (length layup_angles) x))
       material_properties"
    by (simp add: LaminateAnalysis_init_def)
next
  fix L assume "LaminateAnalysis_init layup_angles (Number x) material_properties = Inr L"
  from init_Inr(3,4) [OF this] show "self_t L = replicate (self_k L) x" by simp
qed

section \<open>The z-coordinates of a laminate\<close>

lemma calculate_z_coordinates_Inr:
  assumes "calculate_z_coordinates t k = Inr (z, z_m)"
  shows "k \<le> length t" and "length z = k" and "length z_m = k"
    and "j < k \<Longrightarrow> z ! j = - sum_list t / 2 + (\<Sum>l\<le>j. t ! l)"
    and "j < k \<Longrightarrow> z_m ! j = - sum_list t / 2 + (\<Sum>l<j. t ! l) + t ! j / 2"
proof -
  show k: "k \<le> length t"
  proof (rule ccontr)
    assume "\<not> k \<le> length t"
    then have "z_loop t k 0 (replicate k 0, replicate k 0, - sum_list t / 2) = Inl IndexError"
      by (intro z_loop_fails) simp_all
    with assms show False by (simp add: calculate_z_coordinates_def)
  qed
  from z_loop_result [OF k, of 0 "replicate k 0" "replicate k 0" "- sum_list t / 2"] assms
  have len: "length z = k \<and> length z_m = k"
    and vals: "\<forall>j<k. z ! j = - sum_list t / 2 + (\<Sum>l = 0..j. t ! l) \<and>
                 z_m ! j = - sum_list t / 2 + (\<Sum>l = 0..<j. t ! l) + t ! j / 2"
    by (auto simp: calculate_z_coordinates_def)
  from len show "length z = k" "length z_m = k" by simp_all
  from vals show "j < k \<Longrightarrow> z ! j = - sum_list t / 2 + (\<Sum>l\<le>j. t ! l)"
    by (simp add: atLeast0AtMost)
  from vals show "j < k \<Longrightarrow> z_m ! j = - sum_list t / 2 + (\<Sum>l<j. t ! l) + t ! j / 2"
    by (simp add: atLeast0LessThan)
qed

lemma calculate_z_coordinates_fails:
  "length t < k \<Longrightarrow> calculate_z_coordinates t k = Inl IndexError"
  by (simp add: calculate_z_coordinates_def z_loop_fails)




section \<open>Symmetry of the global stiffness and the local constitutive law\<close>

lemma Q_bar_of_symmetric:
  "symmetric (Q_bar_of [[q11, q12, q13], [q12, q22, q23], [q13, q23, q33]] th)"
  by (simp add: symmetric_def Q_bar_of_def matmul_def T_matrix_def T_e_matrix_def algebra_simps)

lemma calculate_Q_Inr:
  assumes "calculate_Q E11 E22 G12 V12 (V12 * E22 / E11) = Inr Q" "E11 \<noteq> 0"
  shows "\<exists>q11 q12 q22. Q = [[q11, q12, 0], [q12, q22, 0], [0, 0, G12]]"
  using assms by (auto simp: calculate_Q_def split: if_splits)

text \<open>
  \<^bold>\<open>C4.\<close> The global stiffness \<open>Q_bar\<close> of every ply of a constructed laminate, computed as
  \<open>inv(T) @ Q @ T_e\<close>, is a symmetric matrix, for every fibre angle and every material the
  constructor accepts.
\<close>

theorem Q_bar_is_symmetric:
  assumes "LaminateAnalysis_init layup_angles thicknesses material_properties = Inr L"
    and "ply < self_k L"
  shows "symmetric (self_Q_bar L ! ply)"
proof -
  note i = init_Inr [OF assms(1)]
  from calculate_Q_Inr [OF i(7) [unfolded i(6)] i(5)]
  obtain q11 q12 q22 where Q: "self_Q L = [[q11, q12, 0], [q12, q22, 0], [0, 0, self_G12 L]]"
    by blast
  have "ply < length (self_theta L)" using assms(2) i(2,4) by simp
  then have "self_Q_bar L ! ply = Q_bar_of (self_Q L) (self_theta L ! ply)"
    by (simp add: i(11))
  then show ?thesis by (simp add: Q Q_bar_of_symmetric)
qed

lemma matvec_3: "matvec [r1, r2, r3] v = [dot r1 v, dot r2 v, dot r3 v]"
  by (simp add: matvec_def)

lemma matvec_matmul_3:
  "matvec (matmul [[a11, a12, a13], [a21, a22, a23], [a31, a32, a33]]
                  [[b11, b12, b13], [b21, b22, b23], [b31, b32, b33]]) [v1, v2, v3] =
   matvec [[a11, a12, a13], [a21, a22, a23], [a31, a32, a33]]
     (matvec [[b11, b12, b13], [b21, b22, b23], [b31, b32, b33]] [v1, v2, v3])"
  by (simp add: matmul_def matvec_def algebra_simps)

lemma matmul_3:
  "matmul [[a11, a12, a13], [a21, a22, a23], [a31, a32, a33]]
          [[b11, b12, b13], [b21, b22, b23], [b31, b32, b33]] =
   [[a11 * b11 + a12 * b21 + a13 * b31, a11 * b12 + a12 * b22 + a13 * b32,
     a11 * b13 + a12 * b23 + a13 * b33],
    [a21 * b11 + a22 * b21 + a23 * b31, a21 * b12 + a22 * b22 + a23 * b32,
     a21 * b13 + a22 * b23 + a23 * b33],
    [a31 * b11 + a32 * b21 + a33 * b31, a31 * b12 + a32 * b22 + a33 * b32,
     a31 * b13 + a32 * b23 + a33 * b33]]"
  by (simp add: matmul_def)

lemma T_right_inverse:
  assumes "c\<^sup>2 + s\<^sup>2 = (1::real)"
  shows "matvec (T_matrix c s) (matvec (T_matrix c (- s)) [y1, y2, y3]) = [y1, y2, y3]"
proof -
  have "c\<^sup>2 + (- s)\<^sup>2 = 1" using assms by simp
  from T_left_inverse [OF this, of y1 y2 y3] show ?thesis by simp
qed

lemma local_constitutive_law:
  assumes "c\<^sup>2 + s\<^sup>2 = (1::real)"
  shows "matvec (T_matrix c s)
           (matvec (matmul (matmul (T_matrix c (- s))
                      [[q11, q12, q13], [q21, q22, q23], [q31, q32, q33]]) (T_e_matrix c s))
              [g1, g2, g3]) =
         matvec [[q11, q12, q13], [q21, q22, q23], [q31, q32, q33]]
           (matvec (T_e_matrix c s) [g1, g2, g3])"
proof -
  let ?Q = "[[q11, q12, q13], [q21, q22, q23], [q31, q32, q33]]"
  obtain e1 e2 e3 where e: "matvec (T_e_matrix c s) [g1, g2, g3] = [e1, e2, e3]"
    by (simp add: T_e_matrix_def matvec_3)
  obtain w1 w2 w3 where w: "matvec ?Q [e1, e2, e3] = [w1, w2, w3]"
    by (simp add: matvec_3)
  obtain m11 m12 m13 m21 m22 m23 m31 m32 m33 where
    m: "matmul (T_matrix c (- s)) ?Q = [[m11, m12, m13], [m21, m22, m23], [m31, m32, m33]]"
    by (simp add: T_matrix_def matmul_3)
  have "matvec (matmul (matmul (T_matrix c (- s)) ?Q) (T_e_matrix c s)) [g1, g2, g3] =
        matvec (matmul (T_matrix c (- s)) ?Q) (matvec (T_e_matrix c s) [g1, g2, g3])"
    unfolding m unfolding T_e_matrix_def by (rule matvec_matmul_3)
  also have "\<dots> = matvec (T_matrix c (- s)) (matvec ?Q [e1, e2, e3])"
    unfolding e unfolding T_matrix_def by (rule matvec_matmul_3)
  finally show ?thesis
    unfolding e w using T_right_inverse [OF assms, of w1 w2 w3] by simp
qed

section \<open>Ply recovery\<close>

lemma init_lengths:
  assumes "LaminateAnalysis_init layup_angles thicknesses material_properties = Inr L"
  shows "length (self_z L) = self_k L" and "length (self_z_m L) = self_k L"
    and "length (self_Q_bar L) = self_k L" and "length (self_T L) = self_k L"
    and "length (self_T_e L) = self_k L" and "length (self_theta L) = self_k L"
    and "self_k L \<le> length (self_t L)"
  using init_Inr [OF assms] calculate_z_coordinates_Inr(1,2,3) [OF init_Inr(8) [OF assms]]
  by simp_all

lemma py_index_in_range:
  "1 \<le> n \<Longrightarrow> n \<le> int len \<Longrightarrow> py_index len (n - 1) = Inr (nat (n - 1))"
  by (simp add: py_index_def)

lemma py_index_above: "int len < n \<Longrightarrow> py_index len (n - 1) = Inl IndexError"
  by (simp add: py_index_def)

lemma py_index_below: "n \<le> - int len \<Longrightarrow> py_index len (n - 1) = Inl IndexError"
  by (simp add: py_index_def)

lemma py_index_wraps:
  "- int len < n \<Longrightarrow> n \<le> 0 \<Longrightarrow> py_index len (n - 1) = Inr (nat (int len + n - 1))"
  by (simp add: py_index_def)

lemma py_index_Inr: "py_index len i = Inr j \<Longrightarrow> j < len"
  by (auto simp: py_index_def Let_def split: if_splits)

lemma Q_bar_of_square: "square 3 (Q_bar_of Q th)"
  by (simp add: square_def Q_bar_of_def matmul_def T_matrix_def T_e_matrix_def list_all_iff)

lemma np_matvec_square:
  "square n M \<Longrightarrow> length v = n \<Longrightarrow> np_matvec M v = Inr (matvec M v)"
  by (simp add: np_matvec_def square_def)

lemma init_squares:
  assumes "LaminateAnalysis_init layup_angles thicknesses material_properties = Inr L"
    and "i < self_k L"
  shows "square 3 (self_Q_bar L ! i)" and "square 3 (self_T_e L ! i)"
    and "square 3 (self_T L ! i)"
proof -
  have i: "i < length (self_theta L)" using init_lengths(6) [OF assms(1)] assms(2) by simp
  show "square 3 (self_Q_bar L ! i)"
    using i by (simp add: init_Inr(11) [OF assms(1)] Q_bar_of_square)
  show "square 3 (self_T_e L ! i)"
    using i by (simp add: init_Inr(10) [OF assms(1)] square_def T_e_matrix_def)
  show "square 3 (self_T L ! i)"
    using i by (simp add: init_Inr(9) [OF assms(1)] square_def T_matrix_def)
qed

lemma ply_recovery_index_error:
  assumes "py_index (self_k L) (n - 1) = Inl e" and "length (self_z_m L) = self_k L"
  shows "calculate_ply_strains_stresses L ms curv n = Inl e"
  using assms by (simp add: calculate_ply_strains_stresses_def Let_def)

lemma ply_recovery_Inr_index:
  assumes "calculate_ply_strains_stresses L ms curv n = Inr r"
    and "length (self_z_m L) = self_k L"
  obtains i where "py_index (self_k L) (n - 1) = Inr i"
  using assms ply_recovery_index_error [of L n _ ms curv]
  by (cases "py_index (self_k L) (n - 1)") auto

lemma ply_recovery_at:
  assumes "LaminateAnalysis_init layup_angles thicknesses material_properties = Inr L"
    and "py_index (self_k L) (n - 1) = Inr i"
    and "length ms = 3" and "length curv = 3"
  shows "calculate_ply_strains_stresses L ms curv n =
          Inr (map2 (+) ms (map (\<lambda>c. self_z_m L ! i * c) curv),
               matvec (self_Q_bar L ! i) (map2 (+) ms (map (\<lambda>c. self_z_m L ! i * c) curv)),
               matvec (self_T_e L ! i) (map2 (+) ms (map (\<lambda>c. self_z_m L ! i * c) curv)),
               matvec (self_T L ! i)
                 (matvec (self_Q_bar L ! i) (map2 (+) ms (map (\<lambda>c. self_z_m L ! i * c) curv))))"
proof -
  note len = init_lengths(2,3,5,4) [OF assms(1)]
  have i: "i < self_k L" using assms(2) by (rule py_index_Inr)
  note sq = init_squares [OF assms(1) i]
  let ?ge = "map2 (+) ms (map (\<lambda>c. self_z_m L ! i * c) curv)"
  have add: "np_add ms (map (\<lambda>c. self_z_m L ! i * c) curv) = Inr ?ge"
    using assms(3,4) by (simp add: np_add_def)
  have ge: "length ?ge = 3" using assms(3,4) by simp
  have gs: "np_matvec (self_Q_bar L ! i) ?ge = Inr (matvec (self_Q_bar L ! i) ?ge)"
    using sq(1) ge by (rule np_matvec_square)
  have "length (matvec (self_Q_bar L ! i) ?ge) = 3"
    using sq(1) by (simp add: matvec_def square_def)
  with sq(3) have ls: "np_matvec (self_T L ! i) (matvec (self_Q_bar L ! i) ?ge) =
      Inr (matvec (self_T L ! i) (matvec (self_Q_bar L ! i) ?ge))"
    by (rule np_matvec_square)
  have le: "np_matvec (self_T_e L ! i) ?ge = Inr (matvec (self_T_e L ! i) ?ge)"
    using sq(2) ge by (rule np_matvec_square)
  show ?thesis
    by (simp add: calculate_ply_strains_stresses_def Let_def len assms(2) add gs ls le)
qed

text \<open>A ply number \<open>-k < n \<le> 0\<close> is answered with the values of ply \<open>n + k\<close>.\<close>

lemma ply_recovery_wraps:
  assumes "LaminateAnalysis_init layup_angles thicknesses material_properties = Inr L"
    and "- int (self_k L) < n" and "n \<le> 0"
  shows "calculate_ply_strains_stresses L midplane_strains curvatures n =
         calculate_ply_strains_stresses L midplane_strains curvatures (n + int (self_k L))"
proof -
  note len = init_lengths(2,3,5,4) [OF assms(1)]
  have a: "py_index (self_k L) (n - 1) = Inr (nat (int (self_k L) + n - 1))"
    using assms(2,3) by (rule py_index_wraps)
  have "py_index (self_k L) (n + int (self_k L) - 1) = Inr (nat (n + int (self_k L) - 1))"
    using assms(2,3) by (intro py_index_in_range) simp_all
  then have b: "py_index (self_k L) (n + int (self_k L) - 1) = Inr (nat (int (self_k L) + n - 1))"
    by (simp add: add.commute)
  show ?thesis
    by (simp add: calculate_ply_strains_stresses_def Let_def len a b split: sum.splits)
qed

section \<open>Response and recovery of a constructed laminate\<close>

text \<open>
  \<^bold>\<open>C6\<close> (as the source behaves). For a ply number \<open>n\<close> with \<open>1 \<le> n \<le> k\<close> and midplane strains
  and curvatures of three entries each, the recovery returns
  \<open>global_strain = midplane_strains + z_mid * curvatures\<close>, \<open>global_stress = Q_bar @ global_strain\<close>,
  \<open>local_strain = T_e @ global_strain\<close> and \<open>local_stress = T @ global_stress\<close> of ply \<open>n\<close>. For
  \<open>n > k\<close> and for \<open>n \<le> -k\<close> it fails, whatever the strains and curvatures are, and the error is
  Python's \<^verbatim>\<open>IndexError\<close>. The source has no range check of its own: the ply numbers
  \<open>-k < n \<le> 0\<close> reach Python's indexing from the end, see \<open>ply_zero_wraps_to_last_ply\<close> below.
\<close>

theorem ply_recovery_in_and_out_of_range:
  assumes "LaminateAnalysis_init layup_angles thicknesses material_properties = Inr L"
  shows "(1 \<le> n \<and> n \<le> int (self_k L) \<and>
          length midplane_strains = 3 \<and> length curvatures = 3 \<longrightarrow>
            calculate_ply_strains_stresses L midplane_strains curvatures n =
              (let z_mid = self_z_m L ! nat (n - 1);
                   global_strain = map2 (+) midplane_strains (map (\<lambda>c. z_mid * c) curvatures);
                   global_stress = matvec (self_Q_bar L ! nat (n - 1)) global_strain;
                   local_strain = matvec (self_T_e L ! nat (n - 1)) global_strain;
                   local_stress = matvec (self_T L ! nat (n - 1)) global_stress
               in Inr (global_strain, global_stress, local_strain, local_stress))) \<and>
         (int (self_k L) < n \<or> n \<le> - int (self_k L) \<longrightarrow>
            calculate_ply_strains_stresses L midplane_strains curvatures n = Inl IndexError)"
proof (intro conjI impI)
  {
    assume a: "1 \<le> n \<and> n \<le> int (self_k L) \<and>
      length midplane_strains = 3 \<and> length curvatures = 3"
    then have "py_index (self_k L) (n - 1) = Inr (nat (n - 1))"
      by (simp add: py_index_in_range)
    from ply_recovery_at [OF assms this] a
    show "calculate_ply_strains_stresses L midplane_strains curvatures n =
              (let z_mid = self_z_m L ! nat (n - 1);
                   global_strain = map2 (+) midplane_strains (map (\<lambda>c. z_mid * c) curvatures);
                   global_stress = matvec (self_Q_bar L ! nat (n - 1)) global_strain;
                   local_strain = matvec (self_T_e L ! nat (n - 1)) global_strain;
                   local_stress = matvec (self_T L ! nat (n - 1)) global_stress
               in Inr (global_strain, global_stress, local_strain, local_stress))"
      by (simp add: Let_def)
  }
  {
    assume "int (self_k L) < n \<or> n \<le> - int (self_k L)"
    then have "py_index (self_k L) (n - 1) = Inl IndexError"
      using py_index_above py_index_below by blast
    then show "calculate_ply_strains_stresses L midplane_strains curvatures n = Inl IndexError"
      using init_lengths(2) [OF assms] by (rule ply_recovery_index_error)
  }
qed

text \<open>
  \<^bold>\<open>C9.\<close> Whatever ply the recovery returns and whatever the midplane strains and curvatures
  are, the local stress is the material-axis stiffness \<open>Q\<close> applied to the local strain,
  because \<open>T @ inv(T) @ Q @ T_e = Q @ T_e\<close>.
\<close>

theorem local_stress_obeys_material_law:
  assumes "LaminateAnalysis_init layup_angles thicknesses material_properties = Inr L"
    and "calculate_ply_strains_stresses L midplane_strains curvatures n =
           Inr (global_strain, global_stress, local_strain, local_stress)"
    and "length midplane_strains = 3" and "length curvatures = 3"
  shows "local_stress = matvec (self_Q L) local_strain"
proof -
  note i = init_Inr [OF assms(1)]
  from assms(2) init_lengths(2) [OF assms(1)]
  obtain p where p: "py_index (self_k L) (n - 1) = Inr p"
    by (rule ply_recovery_Inr_index)
  from ply_recovery_at [OF assms(1) p assms(3,4)] assms(2)
  have ge: "global_strain = map2 (+) midplane_strains (map (\<lambda>c. self_z_m L ! p * c) curvatures)"
    and le: "local_strain = matvec (self_T_e L ! p) global_strain"
    and ls: "local_stress = matvec (self_T L ! p) (matvec (self_Q_bar L ! p) global_strain)"
    by simp_all
  from p have "p < self_k L" by (rule py_index_Inr)
  then have pth: "p < length (self_theta L)" using init_lengths(6) [OF assms(1)] by simp
  define th where "th = self_theta L ! p"
  have T: "self_T L ! p = T_matrix (cos th) (sin th)"
    and Te: "self_T_e L ! p = T_e_matrix (cos th) (sin th)"
    and Qb: "self_Q_bar L ! p = Q_bar_of (self_Q L) th"
    using pth by (simp_all add: i(9,10,11) th_def)
  from calculate_Q_Inr [OF i(7) [unfolded i(6)] i(5)]
  obtain q11 q12 q22 where Q: "self_Q L = [[q11, q12, 0], [q12, q22, 0], [0, 0, self_G12 L]]"
    by blast
  have "length global_strain = 3" using assms(3,4) by (simp add: ge)
  then obtain g1 g2 g3 where g: "global_strain = [g1, g2, g3]" by (rule length_3E)
  have "(cos th)\<^sup>2 + (sin th)\<^sup>2 = 1" by simp
  from local_constitutive_law [OF this, of q11 q12 0 q12 q22 0 0 0 "self_G12 L" g1 g2 g3]
  show ?thesis
    by (simp add: ls le T Te Qb Q g Q_bar_of_def)
qed

lemma abd_matrix_square:
  assumes "LaminateAnalysis_init layup_angles thicknesses material_properties = Inr L"
  shows "square 6 (abd_matrix L)"
proof -
  from init_Inr(12) [OF assms]
  have "self_A L = mat3 (A_entry (self_k L) (self_t L) (self_Q_bar L))"
    "self_B L = mat3 (B_entry (self_k L) (self_t L) (self_z L) (self_Q_bar L))"
    "self_D L = mat3 (D_entry (self_k L) (self_t L) (self_z L) (self_Q_bar L))"
    by (auto simp: calculate_ABD_matrices_def split: if_splits)
  then show ?thesis
    by (simp add: abd_matrix_def np_block_def mat3_def upt_3 square_def)
qed

text \<open>
  \<^bold>\<open>C2.\<close> When the 6 by 6 matrix \<open>[[A, B], [B, D]]\<close> of a constructed laminate is non-singular,
  \<^verbatim>\<open>calculate_response\<close> returns midplane strains and curvatures for every load of three
  forces and three moments, and the matrix applied to them gives the load back.
\<close>

theorem response_round_trip:
  assumes "LaminateAnalysis_init layup_angles thicknesses material_properties = Inr L"
    and "nonsingular (abd_matrix L)"
    and "length forces = 3" and "length moments = 3"
  shows "\<exists>midplane_strains curvatures.
           calculate_response L forces moments = Inr (midplane_strains, curvatures) \<and>
           matvec (abd_matrix L) (midplane_strains @ curvatures) = forces @ moments"
proof -
  have sq: "square 6 (abd_matrix L)" using assms(1) by (rule abd_matrix_square)
  have len: "length (forces @ moments) = 6" using assms(3,4) by simp
  from sq len assms(2) obtain x where x: "linalg_solve (abd_matrix L) (forces @ moments) = Inr x"
    by (rule linalg_solve_total)
  have "calculate_response L forces moments = Inr (take 3 x, drop 3 x)"
    using assms(3,4) x by (simp add: calculate_response_def)
  moreover have "matvec (abd_matrix L) (take 3 x @ drop 3 x) = forces @ moments"
    using linalg_solve_sound(2) [OF sq len x] by simp
  ultimately show ?thesis by blast
qed




lemma read_material_error:
  "read_material material_properties = Inl e \<Longrightarrow> e = KeyError \<or> e = ZeroDivisionError"
  by (auto simp: read_material_def dict_get_def calculate_Q_def split: option.splits if_splits)

lemma init_too_few_thicknesses:
  assumes "length ts < length layup_angles"
  shows "LaminateAnalysis_init layup_angles (Array ts) material_properties =
           (case read_material material_properties of Inl e \<Rightarrow> Inl e | Inr Q \<Rightarrow> Inl IndexError)"
  using assms
  by (auto simp: LaminateAnalysis_init_def read_material_def Let_def dict_get_def calculate_Q_def
      calculate_z_coordinates_fails split: option.splits)

lemma init_zero_plies:
  "(case read_material material_properties of
      Inl e \<Rightarrow> LaminateAnalysis_init [] (Array []) material_properties = Inl e
    | Inr Q \<Rightarrow>
        (\<exists>L. LaminateAnalysis_init [] (Array []) material_properties = Inr L \<and>
             self_k L = 0 \<and> self_Q L = Q \<and>
             self_A L = zeros_3_3 \<and> self_B L = zeros_3_3 \<and> self_D L = zeros_3_3))"
  by (auto simp: LaminateAnalysis_init_def read_material_def Let_def dict_get_def calculate_Q_def
      calculate_z_coordinates_def z_loop.simps calculate_ABD_matrices_def mat3_def upt_3
      A_entry_def B_entry_def D_entry_def zeros_3_3_def split: option.splits)

text \<open>
  \<^bold>\<open>C3\<close> (as the source behaves). With fewer thicknesses than angles the constructor fails:
  with the \<^verbatim>\<open>KeyError\<close> or \<^verbatim>\<open>ZeroDivisionError\<close> of reading the material and computing \<open>Q\<close>
  when one of these steps raises, and otherwise with Python's \<^verbatim>\<open>IndexError\<close>, which the loop
  over the z-coordinates raises after \<open>Q\<close> has been computed. With no angle and no thickness
  the constructor fails only when reading the material and computing \<open>Q\<close> fail; otherwise
  it returns a laminate of zero plies whose \<open>A\<close>, \<open>B\<close> and \<open>D\<close> are zero.
\<close>

theorem too_few_thicknesses_fail:
  "(length ts < length layup_angles \<longrightarrow>
      LaminateAnalysis_init layup_angles (Array ts) material_properties =
        (case read_material material_properties of Inl e \<Rightarrow> Inl e | Inr Q \<Rightarrow> Inl IndexError) \<and>
      calculate_z_coordinates ts (length layup_angles) = Inl IndexError) \<and>
   (\<forall>e. read_material material_properties = Inl e \<longrightarrow> e = KeyError \<or> e = ZeroDivisionError) \<and>
   (case read_material material_properties of
      Inl e \<Rightarrow> LaminateAnalysis_init [] (Array []) material_properties = Inl e
    | Inr Q \<Rightarrow>
        (\<exists>L. LaminateAnalysis_init [] (Array []) material_properties = Inr L \<and>
             self_k L = 0 \<and> self_Q L = Q \<and>
             self_A L = zeros_3_3 \<and> self_B L = zeros_3_3 \<and> self_D L = zeros_3_3))"
  using init_too_few_thicknesses [of ts layup_angles material_properties]
    calculate_z_coordinates_fails [of ts "length layup_angles"]
    read_material_error [of material_properties]
    init_zero_plies [of material_properties]
  by blast

section \<open>Worked examples\<close>

lemmas init_eval =
  LaminateAnalysis_init_def example_material_def dict_get_def calculate_Q_def
  calculate_z_coordinates_def z_loop.simps ply_loop_eq Q_bar_of_def T_matrix_def T_e_matrix_def
  matmul_def calculate_ABD_matrices_def mat3_def upt_3 A_entry_def B_entry_def D_entry_def
  eval_nat_numeral upt_rec Let_def

lemma example_init:
  "LaminateAnalysis_init [0, 90] (Array [1, 1]) example_material = Inr example_laminate"
  by (simp add: init_eval example_laminate_def)

lemma empty_init:
  "LaminateAnalysis_init [] (Array []) example_material = Inr empty_laminate"
  by (simp add: init_eval empty_laminate_def)


lemmas solve_eval =
  calculate_response_def abd_matrix_def np_block_def linalg_solve_def swap_rows_def
  eliminate_def Let_def

lemma example_response:
  "calculate_response example_laminate [1, 0, 0] [0, 0, 0] =
     Inr ([25 / 92, - (5 / 92), 0], [45 / 184, 0, 0])"
  by (simp add: solve_eval example_laminate_def)

lemma example_solve:
  "linalg_solve (abd_matrix example_laminate) [1, 0, 0, 0, 0, 0] =
     Inr [25 / 92, - (5 / 92), 0, 45 / 184, 0, 0]"
  by (simp add: solve_eval example_laminate_def)

lemma example_nonsingular: "nonsingular (abd_matrix example_laminate)"
  using abd_matrix_square [OF example_init] _ example_solve
  by (rule linalg_solve_nonsingular) simp


lemma example_read_material:
  "read_material example_material = Inr [[64 / 15, 8 / 15, 0], [8 / 15, 16 / 15, 0], [0, 0, 1]]"
  by (simp add: read_material_def example_material_def dict_get_def calculate_Q_def)

lemma broken_read_material:
  "read_material (example_material(''V12'' := Some 2, ''E22'' := Some 1)) = Inl ZeroDivisionError"
  by (simp add: read_material_def example_material_def dict_get_def calculate_Q_def)

text \<open>The theorems at the example laminate.\<close>

theorem ABD_entries_are_ply_sums_witness:
  "LaminateAnalysis_init [0, 90] (Array [1, 1]) example_material = Inr example_laminate \<and>
   (0::nat) < 3 \<and> (1::nat) < 3 \<and>
   self_A example_laminate ! 0 ! 1 =
     (\<Sum>ply<self_k example_laminate.
         self_Q_bar example_laminate ! ply ! 0 ! 1 * self_t example_laminate ! ply) \<and>
   self_B example_laminate ! 0 ! 1 =
     1 / 2 * (\<Sum>ply<self_k example_laminate. self_Q_bar example_laminate ! ply ! 0 ! 1 *
        ((self_z example_laminate ! ply)\<^sup>2 -
         (self_z example_laminate ! ply - self_t example_laminate ! ply)\<^sup>2)) \<and>
   self_D example_laminate ! 0 ! 1 =
     1 / 3 * (\<Sum>ply<self_k example_laminate. self_Q_bar example_laminate ! ply ! 0 ! 1 *
        ((self_z example_laminate ! ply) ^ 3 -
         (self_z example_laminate ! ply - self_t example_laminate ! ply) ^ 3)) \<and>
   self_A example_laminate ! 0 ! 1 = 16 / 15"
  using ABD_entries_are_ply_sums [OF example_init, of 0 1] example_init
  by (simp add: example_laminate_def)

theorem transformation_at_zero_is_identity_witness:
  "calculate_transformation 0 (self_Q example_laminate) =
     Inr ([[1, 0, 0], [0, 1, 0], [0, 0, 1]], [[1, 0, 0], [0, 1, 0], [0, 0, 1]],
          self_Q example_laminate)"
  using transformation_at_zero_is_identity [of "64 / 15" "8 / 15" 0 "8 / 15" "16 / 15" 0 0 0 1]
  by (simp add: example_laminate_def)

theorem response_round_trip_witness:
  "LaminateAnalysis_init [0, 90] (Array [1, 1]) example_material = Inr example_laminate \<and>
   nonsingular (abd_matrix example_laminate) \<and>
   calculate_response example_laminate [1, 0, 0] [0, 0, 0] =
     Inr ([25 / 92, - (5 / 92), 0], [45 / 184, 0, 0]) \<and>
   matvec (abd_matrix example_laminate) ([25 / 92, - (5 / 92), 0] @ [45 / 184, 0, 0]) =
     [1, 0, 0] @ [0, 0, 0]"
  using response_round_trip [OF example_init example_nonsingular, of "[1, 0, 0]" "[0, 0, 0]"]
    example_init example_nonsingular example_response
  by simp

theorem Q_bar_is_symmetric_witness:
  "LaminateAnalysis_init [0, 90] (Array [1, 1]) example_material = Inr example_laminate \<and>
   1 < self_k example_laminate \<and>
   symmetric (self_Q_bar example_laminate ! 1) \<and>
   self_Q_bar example_laminate ! 1 = [[16 / 15, 8 / 15, 0], [8 / 15, 64 / 15, 0], [0, 0, 1]]"
proof -
  have k: "1 < self_k example_laminate" by (simp add: example_laminate_def)
  from Q_bar_is_symmetric [OF example_init k] example_init k show ?thesis
    by (simp add: example_laminate_def)
qed



lemmas recovery_eval =
  calculate_ply_strains_stresses_def example_laminate_def py_index_def matvec_def
  np_add_def np_matvec_def

theorem local_stress_obeys_material_law_witness:
  "LaminateAnalysis_init [0, 90] (Array [1, 1]) example_material = Inr example_laminate \<and>
   calculate_ply_strains_stresses example_laminate [1, 0, 0] [0, 0, 1] 2 =
     Inr ([1, 0, 1 / 2], [16 / 15, 8 / 15, 1 / 2], [0, 1, - (1 / 2)],
          [8 / 15, 16 / 15, - (1 / 2)]) \<and>
   [8 / 15, 16 / 15, - (1 / 2)] = matvec (self_Q example_laminate) [0, 1, - (1 / 2)]"
proof -
  have r: "calculate_ply_strains_stresses example_laminate [1, 0, 0] [0, 0, 1] 2 =
     Inr ([1, 0, 1 / 2], [16 / 15, 8 / 15, 1 / 2], [0, 1, - (1 / 2)],
          [8 / 15, 16 / 15, - (1 / 2)])"
    by (simp add: recovery_eval)
  from local_stress_obeys_material_law [OF example_init r] example_init r
  show ?thesis by simp
qed

theorem scalar_thickness_is_replicated_witness:
  "LaminateAnalysis_init [0, 90] (Number 1) example_material = Inr example_laminate \<and>
   LaminateAnalysis_init [0, 90] (Number 1) example_material =
     LaminateAnalysis_init [0, 90] (Array (replicate (length [0, 90 :: real]) 1)) example_material \<and>
   self_t example_laminate = replicate (self_k example_laminate) 1"
proof -
  note th = scalar_thickness_is_replicated [of "[0, 90]" 1 example_material]
  have i: "LaminateAnalysis_init [0, 90] (Number 1) example_material = Inr example_laminate"
    using th [THEN conjunct1] example_init by (simp add: eval_nat_numeral)
  from th [THEN conjunct2, rule_format, OF i] th [THEN conjunct1] i show ?thesis by simp
qed

theorem too_few_thicknesses_fail_witness:
  "length [1, 1, 1, 1 :: real] < length [0, 0, 0, 0, 0 :: real] \<and>
   read_material example_material =
     Inr [[64 / 15, 8 / 15, 0], [8 / 15, 16 / 15, 0], [0, 0, 1]] \<and>
   LaminateAnalysis_init [0, 0, 0, 0, 0] (Array [1, 1, 1, 1]) example_material = Inl IndexError \<and>
   calculate_z_coordinates [1, 1, 1, 1] (length [0, 0, 0, 0, 0 :: real]) = Inl IndexError \<and>
   read_material (example_material(''V12'' := Some 2, ''E22'' := Some 1)) =
     Inl ZeroDivisionError \<and>
   LaminateAnalysis_init [0, 0, 0, 0, 0] (Array [1, 1, 1, 1])
     (example_material(''V12'' := Some 2, ''E22'' := Some 1)) = Inl ZeroDivisionError \<and>
   LaminateAnalysis_init [] (Array [])
     (example_material(''V12'' := Some 2, ''E22'' := Some 1)) = Inl ZeroDivisionError \<and>
   (\<exists>L. LaminateAnalysis_init [] (Array []) example_material = Inr L \<and> self_k L = 0 \<and>
        self_A L = zeros_3_3 \<and> self_B L = zeros_3_3 \<and> self_D L = zeros_3_3)"
proof -
  have l: "length [1, 1, 1, 1 :: real] < length [0, 0, 0, 0, 0 :: real]" by simp
  note a = too_few_thicknesses_fail [of "[1, 1, 1, 1]" "[0, 0, 0, 0, 0]" example_material]
  note b = too_few_thicknesses_fail [of "[1, 1, 1, 1]" "[0, 0, 0, 0, 0]"
      "example_material(''V12'' := Some 2, ''E22'' := Some 1)"]
  have a1: "LaminateAnalysis_init [0, 0, 0, 0, 0] (Array [1, 1, 1, 1]) example_material =
      Inl IndexError"
    and a2: "calculate_z_coordinates [1, 1, 1, 1] (length [0, 0, 0, 0, 0 :: real]) = Inl IndexError"
    using a [THEN conjunct1, rule_format, OF l] by (simp_all add: example_read_material)
  have a3: "\<exists>L. LaminateAnalysis_init [] (Array []) example_material = Inr L \<and> self_k L = 0 \<and>
        self_A L = zeros_3_3 \<and> self_B L = zeros_3_3 \<and> self_D L = zeros_3_3"
    using a [THEN conjunct2, THEN conjunct2] by (auto simp: example_read_material)
  have b1: "LaminateAnalysis_init [0, 0, 0, 0, 0] (Array [1, 1, 1, 1])
     (example_material(''V12'' := Some 2, ''E22'' := Some 1)) = Inl ZeroDivisionError"
    using b [THEN conjunct1, rule_format, OF l] by (simp add: broken_read_material)
  have b2: "LaminateAnalysis_init [] (Array [])
     (example_material(''V12'' := Some 2, ''E22'' := Some 1)) = Inl ZeroDivisionError"
    using b [THEN conjunct2, THEN conjunct2] by (simp add: broken_read_material)
  from l example_read_material broken_read_material a1 a2 a3 b1 b2 show ?thesis by blast
qed

text \<open>
  Against \<^bold>\<open>C3\<close> as stated: the layup of no plies is constructed, with \<open>A\<close>, \<open>B\<close> and \<open>D\<close> zero.
\<close>

theorem construction_accepts_zero_plies:
  "LaminateAnalysis_init [] (Array []) example_material = Inr empty_laminate \<and>
   LaminateAnalysis_init [] (Array []) example_material \<noteq> Inl InvalidLayup \<and>
   self_k empty_laminate = 0 \<and> self_A empty_laminate = zeros_3_3"
  by (simp add: empty_init empty_laminate_def zeros_3_3_def)



text \<open>
  Against \<^bold>\<open>C6\<close> as stated: the ply number 0 is below 1, and the recovery returns the values of
  the last ply instead of failing; the ply number 3 of a laminate of two plies fails with
  \<^verbatim>\<open>IndexError\<close>.
\<close>

theorem ply_zero_wraps_to_last_ply:
  "LaminateAnalysis_init [0, 90] (Array [1, 1]) example_material = Inr example_laminate \<and>
   calculate_ply_strains_stresses example_laminate [1, 0, 0] [0, 0, 1] 0 =
     Inr ([1, 0, 1 / 2], [16 / 15, 8 / 15, 1 / 2], [0, 1, - (1 / 2)],
          [8 / 15, 16 / 15, - (1 / 2)]) \<and>
   calculate_ply_strains_stresses example_laminate [1, 0, 0] [0, 0, 1] 0 \<noteq>
     Inl PlyIndexOutOfRange \<and>
   calculate_ply_strains_stresses example_laminate [1, 0, 0] [0, 0, 1] 3 = Inl IndexError"
proof -
  have "calculate_ply_strains_stresses example_laminate [1, 0, 0] [0, 0, 1] 0 =
     Inr ([1, 0, 1 / 2], [16 / 15, 8 / 15, 1 / 2], [0, 1, - (1 / 2)],
          [8 / 15, 16 / 15, - (1 / 2)])"
    by (simp add: recovery_eval)
  moreover have "calculate_ply_strains_stresses example_laminate [1, 0, 0] [0, 0, 1] 3 =
      Inl IndexError"
    by (simp add: recovery_eval)
  ultimately show ?thesis using example_init by simp
qed

theorem ply_recovery_in_and_out_of_range_witness:
  "LaminateAnalysis_init [0, 90] (Array [1, 1]) example_material = Inr example_laminate \<and>
   (1::int) \<le> 2 \<and> 2 \<le> int (self_k example_laminate) \<and>
   length [1, 0, 0 :: real] = 3 \<and> length [0, 0, 1 :: real] = 3 \<and>
   calculate_ply_strains_stresses example_laminate [1, 0, 0] [0, 0, 1] 2 =
     Inr ([1, 0, 1 / 2], [16 / 15, 8 / 15, 1 / 2], [0, 1, - (1 / 2)],
          [8 / 15, 16 / 15, - (1 / 2)]) \<and>
   int (self_k example_laminate) < 3 \<and>
   calculate_ply_strains_stresses example_laminate [1, 0, 0] [0, 0, 1] 3 = Inl IndexError \<and>
   - 2 \<le> - int (self_k example_laminate) \<and>
   calculate_ply_strains_stresses example_laminate [1, 0, 0] [0, 0, 1] (- 2) = Inl IndexError"
proof -
  have k: "self_k example_laminate = 2" by (simp add: example_laminate_def)
  note th = ply_recovery_in_and_out_of_range [OF example_init, of _ "[1, 0, 0]" "[0, 0, 1]"]
  have a: "calculate_ply_strains_stresses example_laminate [1, 0, 0] [0, 0, 1] 2 =
     Inr ([1, 0, 1 / 2], [16 / 15, 8 / 15, 1 / 2], [0, 1, - (1 / 2)],
          [8 / 15, 16 / 15, - (1 / 2)])"
    using th [of 2, THEN conjunct1] by (simp add: k example_laminate_def matvec_def Let_def)
  have b: "calculate_ply_strains_stresses example_laminate [1, 0, 0] [0, 0, 1] 3 = Inl IndexError"
    using th [of 3, THEN conjunct2] by (simp add: k)
  have c: "calculate_ply_strains_stresses example_laminate [1, 0, 0] [0, 0, 1] (- 2) = Inl IndexError"
    using th [of "- 2", THEN conjunct2] by (simp add: k)
  from a b c example_init k show ?thesis by simp
qed

end
